theory Spec2Isabelle
  imports Complex_Main "HOL-Library.Word" "HOL-Library.Sublist"
begin

section \<open>AuroraMind AI service: ingestion and streaming query (ai-service/main.py)\<close>

text \<open>
  The service is one Python module. Its own code is embedded function by function; the
  libraries it calls (the filesystem, pypdf, the text splitter, the embedding model, the
  vector index, the chat chain) are parameters collected in the record \<open>env\<close>, each a
  function that returns a value or an exception.
\<close>

subsection \<open>Python strings, bytes and exceptions\<close>

text \<open>
  A Python \<open>str\<close> is a sequence of Unicode code points (naturals below \<open>0x110000\<close>);
  \<open>bytes\<close> is a sequence of 8-bit words. \<open>str\<close> turns a literal of the theory into a
  Python string.
\<close>

type_synonym pystr = "nat list"
type_synonym byte = "8 word"
type_synonym bytes = "byte list"

definition str :: "string \<Rightarrow> pystr" where
  "str s = map of_char s"


text \<open>Decimal representation of a natural number, as \<open>str(n)\<close> and \<open>{n}\<close> in an f-string give it.\<close>

fun str_of_nat :: "nat \<Rightarrow> pystr" where
  "str_of_nat n = (if n < 10 then [48 + n] else str_of_nat (n div 10) @ [48 + n mod 10])"

declare str_of_nat.simps [simp del]

text \<open>Two lower-case hexadecimal digits of a byte value and four of a code point.\<close>

definition hex_digit :: "nat \<Rightarrow> nat" where
  "hex_digit d = (if d < 10 then 48 + d else 87 + d)"

definition hex2 :: "nat \<Rightarrow> pystr" where
  "hex2 n = [hex_digit (n div 16 mod 16), hex_digit (n mod 16)]"

definition hex4 :: "nat \<Rightarrow> pystr" where
  "hex4 n = hex2 (n div 256) @ hex2 (n mod 256)"

text \<open>
  The exceptions that reach the handlers of the module. All of them are subclasses of
  \<open>Exception\<close>, which is what the two \<open>except Exception\<close> clauses catch. \<open>LibraryError m\<close>
  stands for any other exception a library call raises, \<open>m\<close> being its \<open>str()\<close>.
\<close>

datatype exn =
    FileNotFoundError pystr
  | RuntimeError pystr
  | UnicodeDecodeError nat nat nat pystr
  | UnicodeEncodeError nat nat nat
  | KeyError pystr
  | HTTPException nat pystr
  | TypeError pystr
  | AttributeError pystr
  | OSError pystr
  | LibraryError pystr

text \<open>
  \<open>str(exc)\<close>. \<open>UnicodeDecodeError b i j r\<close> holds the first offending byte, the range
  \<open>i..<j\<close> and the reason; \<open>UnicodeEncodeError c i j\<close> the first offending code point and the range \<open>i..<j\<close> of the
  run of surrogates it starts; \<open>KeyError k\<close> the missing key, shown as its \<open>repr\<close> (for a key
  that needs no escapes); \<open>HTTPException\<close> the status code and the detail; \<open>TypeError\<close>,
  \<open>AttributeError\<close> and \<open>OSError\<close> (one that is no \<open>FileNotFoundError\<close>) their message.
\<close>

fun str_exc :: "exn \<Rightarrow> pystr" where
  "str_exc (FileNotFoundError m) = m"
| "str_exc (RuntimeError m) = m"
| "str_exc (UnicodeDecodeError b i j r) =
     (if j = Suc i
      then [39] @ str ''utf-8'' @ [39] @ str '' codec can'' @ [39] @ str ''t decode byte 0x''
           @ hex2 b @ str '' in position '' @ str_of_nat i @ str '': '' @ r
      else [39] @ str ''utf-8'' @ [39] @ str '' codec can'' @ [39] @ str ''t decode bytes in position ''
           @ str_of_nat i @ str ''-'' @ str_of_nat (j - 1) @ str '': '' @ r)"
| "str_exc (UnicodeEncodeError c i j) =
     (if j = Suc i
      then [39] @ str ''utf-8'' @ [39] @ str '' codec can'' @ [39] @ str ''t encode character ''
           @ [39, 92] @ str ''u'' @ hex4 c @ [39] @ str '' in position '' @ str_of_nat i
           @ str '': surrogates not allowed''
      else [39] @ str ''utf-8'' @ [39] @ str '' codec can'' @ [39] @ str ''t encode characters in position ''
           @ str_of_nat i @ str ''-'' @ str_of_nat (j - 1) @ str '': surrogates not allowed'')"
| "str_exc (KeyError k) = [39] @ k @ [39]"
| "str_exc (HTTPException code detail) = str_of_nat code @ str '': '' @ detail"
| "str_exc (TypeError m) = m"
| "str_exc (AttributeError m) = m"
| "str_exc (OSError m) = m"
| "str_exc (LibraryError m) = m"

subsection \<open>The UTF-8 codec\<close>

text \<open>
  \<open>s.encode("utf-8")\<close>: one to four bytes per code point; a surrogate (\<open>0xD800\<close> to
  \<open>0xDFFF\<close>) raises \<open>UnicodeEncodeError\<close>, the first one in the string deciding.
\<close>

definition utf8_encode_cp :: "nat \<Rightarrow> bytes" where
  "utf8_encode_cp c =
     (if c < 0x80 then [of_nat c]
      else if c < 0x800 then [of_nat (0xC0 + c div 64), of_nat (0x80 + c mod 64)]
      else if c < 0x10000 then
        [of_nat (0xE0 + c div 4096), of_nat (0x80 + c div 64 mod 64), of_nat (0x80 + c mod 64)]
      else
        [of_nat (0xF0 + c div 262144), of_nat (0x80 + c div 4096 mod 64),
         of_nat (0x80 + c div 64 mod 64), of_nat (0x80 + c mod 64)])"

definition is_surrogate :: "nat \<Rightarrow> bool" where
  "is_surrogate c = (0xD800 \<le> c \<and> c \<le> 0xDFFF)"

fun utf8_encode_from :: "nat \<Rightarrow> pystr \<Rightarrow> exn + bytes" where
  "utf8_encode_from i [] = Inr []"
| "utf8_encode_from i (c # cs) =
     (if is_surrogate c
      then Inl (UnicodeEncodeError c i (i + length (takeWhile is_surrogate (c # cs))))
      else (case utf8_encode_from (Suc i) cs of
              Inl e \<Rightarrow> Inl e
            | Inr bs \<Rightarrow> Inr (utf8_encode_cp c @ bs)))"

definition utf8_encode :: "pystr \<Rightarrow> exn + bytes" where
  "utf8_encode s = utf8_encode_from 0 s"

text \<open>
  Decoding, as CPython's decoder does it. \<open>utf8_next b0 rest\<close> looks at the sequence that
  starts with the byte \<open>b0\<close>: either a code point and the number of bytes it takes, or the
  number of bytes of the undecodable range and the reason. An offending continuation byte
  is not part of the range: decoding resumes at it.
\<close>

datatype errors = Strict | Ignore | Replace

datatype utf8_step = Decoded nat nat | Undecodable nat pystr

definition is_continuation :: "nat \<Rightarrow> bool" where
  "is_continuation b = (0x80 \<le> b \<and> b < 0xC0)"

definition utf8_next :: "nat \<Rightarrow> nat list \<Rightarrow> utf8_step" where
  "utf8_next b0 rest =
     (if b0 < 0x80 then Decoded b0 1
      else if b0 < 0xC2 then Undecodable 1 (str ''invalid start byte'')
      else if b0 < 0xE0 then
        (case rest of
           [] \<Rightarrow> Undecodable 1 (str ''unexpected end of data'')
         | b1 # _ \<Rightarrow>
             if is_continuation b1 then Decoded ((b0 - 0xC0) * 64 + (b1 - 0x80)) 2
             else Undecodable 1 (str ''invalid continuation byte''))
      else if b0 < 0xF0 then
        (case rest of
           [] \<Rightarrow> Undecodable 1 (str ''unexpected end of data'')
         | b1 # rest1 \<Rightarrow>
             if \<not> is_continuation b1 \<or> (if b1 < 0xA0 then b0 = 0xE0 else b0 = 0xED)
             then Undecodable 1 (str ''invalid continuation byte'')
             else (case rest1 of
                     [] \<Rightarrow> Undecodable 2 (str ''unexpected end of data'')
                   | b2 # _ \<Rightarrow>
                       if is_continuation b2
                       then Decoded ((b0 - 0xE0) * 4096 + (b1 - 0x80) * 64 + (b2 - 0x80)) 3
                       else Undecodable 2 (str ''invalid continuation byte'')))
      else if b0 < 0xF5 then
        (case rest of
           [] \<Rightarrow> Undecodable 1 (str ''unexpected end of data'')
         | b1 # rest1 \<Rightarrow>
             if \<not> is_continuation b1 \<or> (if b1 < 0x90 then b0 = 0xF0 else b0 = 0xF4)
             then Undecodable 1 (str ''invalid continuation byte'')
             else (case rest1 of
                     [] \<Rightarrow> Undecodable 2 (str ''unexpected end of data'')
                   | b2 # rest2 \<Rightarrow>
                       if \<not> is_continuation b2
                       then Undecodable 2 (str ''invalid continuation byte'')
                       else (case rest2 of
                               [] \<Rightarrow> Undecodable 3 (str ''unexpected end of data'')
                             | b3 # _ \<Rightarrow>
                                 if is_continuation b3
                                 then Decoded ((b0 - 0xF0) * 262144 + (b1 - 0x80) * 4096
                                               + (b2 - 0x80) * 64 + (b3 - 0x80)) 4
                                 else Undecodable 3 (str ''invalid continuation byte''))))
      else Undecodable 1 (str ''invalid start byte''))"

text \<open>
  The decoder proper, at position \<open>i\<close> of the input. On an undecodable range the error
  handler decides: \<open>strict\<close> raises, \<open>ignore\<close> drops the range, \<open>replace\<close> puts U+FFFD
  in its place.
\<close>

fun utf8_decode_from :: "errors \<Rightarrow> nat \<Rightarrow> nat list \<Rightarrow> exn + pystr" where
  "utf8_decode_from h i [] = Inr []"
| "utf8_decode_from h i (b # bs) =
     (case utf8_next b bs of
        Decoded c n \<Rightarrow>
          (case utf8_decode_from h (i + n) (drop (n - 1) bs) of
             Inl e \<Rightarrow> Inl e
           | Inr t \<Rightarrow> Inr (c # t))
      | Undecodable n r \<Rightarrow>
          (case h of
             Strict \<Rightarrow> Inl (UnicodeDecodeError b i (i + n) r)
           | Ignore \<Rightarrow> utf8_decode_from h (i + n) (drop (n - 1) bs)
           | Replace \<Rightarrow>
               (case utf8_decode_from h (i + n) (drop (n - 1) bs) of
                  Inl e \<Rightarrow> Inl e
                | Inr t \<Rightarrow> Inr (0xFFFD # t))))"

definition utf8_decode :: "errors \<Rightarrow> bytes \<Rightarrow> exn + pystr" where
  "utf8_decode h bs = utf8_decode_from h 0 (map unat bs)"

text \<open>
  A file opened in text mode with the default \<open>newline=None\<close> translates \<open>\r\n\<close> and a
  lone \<open>\r\<close> of the decoded text to \<open>\n\<close>.
\<close>

fun universal_newlines :: "pystr \<Rightarrow> pystr" where
  "universal_newlines [] = []"
| "universal_newlines (c # cs) =
     (if c = 13 then
        (case cs of
           [] \<Rightarrow> [10]
         | d # ds \<Rightarrow> if d = 10 then 10 # universal_newlines ds else 10 # universal_newlines cs)
      else c # universal_newlines cs)"

text \<open>\<open>open(p, "r", encoding="utf-8", errors=h)\<close> followed by \<open>f.read()\<close>, on the file's bytes.\<close>

definition read_text :: "errors \<Rightarrow> bytes \<Rightarrow> exn + pystr" where
  "read_text h bs =
     (case utf8_decode h bs of
        Inl e \<Rightarrow> Inl e
      | Inr t \<Rightarrow> Inr (universal_newlines t))"

text \<open>
  The same reading as the specification words it, "silently replacing undecodable bytes":
  Python's \<open>errors="replace"\<close>.
\<close>

definition read_replacing :: "bytes \<Rightarrow> exn + pystr" where
  "read_replacing bs = read_text Replace bs"

subsection \<open>Data model and the libraries the service calls\<close>

text \<open>
  \<open>DocumentRecord\<close> is the dataclass of the module; its default status \<open>"queued"\<close> is the
  constant \<open>default_status\<close>. \<open>created_at\<close> is the reading of \<open>time.time()\<close> at creation.
\<close>

record DocumentRecord =
  document_id :: pystr
  collection_id :: pystr
  storage_uri :: pystr
  title :: pystr
  status :: pystr
  note' :: "pystr option"
  created_at :: real

definition default_status :: pystr where
  "default_status = str ''queued''"

text \<open>
  The library objects are handles: a Pinecone client made from an API key, an embedding
  model made from a model name and an API key, an index of a client, a chat chain made from
  a model name.
\<close>

datatype Pinecone = Pinecone pystr
datatype OpenAIEmbeddings = OpenAIEmbeddings pystr pystr
datatype Index = Index Pinecone pystr
datatype Chain = Chain pystr

text \<open>The dictionaries \<open>upsert_to_pinecone\<close> builds, and one call of \<open>index.upsert\<close>.\<close>

record metadata =
  md_collection_id :: pystr
  md_document_id :: pystr
  md_chunk_id :: pystr
  md_text :: pystr

record vector =
  vec_id :: pystr
  vec_values :: "real list"
  vec_metadata :: metadata

record upsert_call =
  up_index :: Index
  up_vectors :: "vector list"
  up_namespace :: pystr

text \<open>A match returned by \<open>index.query\<close>: its metadata (or \<open>None\<close>) and its score, if it has one.\<close>

record match =
  m_metadata :: "(pystr \<rightharpoonup> pystr) option"
  m_score :: "real option"

text \<open>
  Everything outside the module. Each library call is a function of its arguments that
  returns its value or the exception it raises (\<open>Inl\<close>); the constructors are given by the
  exception they raise, if any. \<open>on_disk p\<close> says whether the path \<open>p\<close> names something that
  exists; \<open>path_exists p\<close> is what \<open>Path(p).exists()\<close> does: it answers, or it raises the
  \<open>OSError\<close> of \<open>os.stat\<close> when that is not one of the "not found" kind (a name too long, a
  directory that may not be searched). \<open>open_read\<close> is \<open>open(p, "r", ...)\<close> up to the bytes that
  \<open>read()\<close> decodes; \<open>pdf_pages\<close> is \<open>PdfReader(p).pages\<close> with the result of
  \<open>extract_text()\<close> of each page; \<open>split_text n k\<close> is
  \<open>RecursiveCharacterTextSplitter(chunk_size=n, chunk_overlap=k).split_text\<close>;
  \<open>chain_astream\<close> gives the chunks the chain streams and the exception that ends the
  stream, if one does.
\<close>

record env =
  environ :: "pystr \<rightharpoonup> pystr"
  on_disk :: "pystr \<Rightarrow> bool"
  path_exists :: "pystr \<Rightarrow> exn + bool"
  path_suffix :: "pystr \<Rightarrow> pystr"
  open_read :: "pystr \<Rightarrow> exn + bytes"
  pdf_pages :: "pystr \<Rightarrow> exn + (exn + pystr option) list"
  split_text :: "nat \<Rightarrow> nat \<Rightarrow> pystr \<Rightarrow> exn + pystr list"
  OpenAIEmbeddings_init :: "pystr \<Rightarrow> pystr \<Rightarrow> exn option"
  Pinecone_init :: "pystr \<Rightarrow> exn option"
  Index_init :: "Pinecone \<Rightarrow> pystr \<Rightarrow> exn option"
  embed_query :: "OpenAIEmbeddings \<Rightarrow> pystr \<Rightarrow> exn + real list"
  index_upsert :: "Index \<Rightarrow> vector list \<Rightarrow> pystr \<Rightarrow> exn option"
  index_query :: "Index \<Rightarrow> real list \<Rightarrow> nat \<Rightarrow> pystr \<Rightarrow> exn + match list"
  ChatOpenAI_init :: "pystr \<Rightarrow> exn option"
  chain_astream :: "Chain \<Rightarrow> pystr \<Rightarrow> pystr \<Rightarrow> pystr list \<times> exn option"

text \<open>The module-level configuration, read from the process environment.\<close>

definition get_env :: "env \<Rightarrow> pystr \<Rightarrow> pystr \<Rightarrow> pystr" where
  "get_env e key dflt = (case environ e key of None \<Rightarrow> dflt | Some v \<Rightarrow> v)"

definition SERVICE_TOKEN :: "env \<Rightarrow> pystr" where
  "SERVICE_TOKEN e = get_env e (str ''SERVICE_TOKEN'') []"

definition OPENAI_MODEL :: "env \<Rightarrow> pystr" where
  "OPENAI_MODEL e = get_env e (str ''OPENAI_CHAT_MODEL'') (str ''gpt-4.1-mini'')"

definition VECTOR_INDEX :: "env \<Rightarrow> pystr" where
  "VECTOR_INDEX e = get_env e (str ''PINECONE_INDEX_NAME'') (str ''kb-index'')"

definition OPENAI_API_KEY :: "env \<Rightarrow> pystr" where
  "OPENAI_API_KEY e = get_env e (str ''OPENAI_API_KEY'') []"

definition OPENAI_EMBED_MODEL :: "env \<Rightarrow> pystr" where
  "OPENAI_EMBED_MODEL e = get_env e (str ''OPENAI_EMBED_MODEL'') (str ''text-embedding-3-small'')"

text \<open>
  The state of the process: the module globals \<open>DOCUMENTS\<close> and \<open>pc_client\<close>, the cache of
  \<open>get_langchain_chain\<close>, and the calls of \<open>index.upsert\<close> made so far, oldest first. A
  record object is reachable only through its key of \<open>DOCUMENTS\<close>, so assigning to a field
  of the record is an update of the map at that key.
\<close>

record state =
  DOCUMENTS :: "pystr \<rightharpoonup> DocumentRecord"
  pc_client :: "Pinecone option"
  chain_cache :: "Chain option"
  upsert_calls :: "upsert_call list"

definition initial_state :: state where
  "initial_state = \<lparr>DOCUMENTS = Map.empty, pc_client = None, chain_cache = None, upsert_calls = []\<rparr>"

definition get_pinecone :: "env \<Rightarrow> state \<Rightarrow> (exn + Pinecone option) \<times> state" where
  "get_pinecone e s =
     (case pc_client s of
        Some pc \<Rightarrow> (Inr (Some pc), s)
      | None \<Rightarrow>
          (case environ e (str ''PINECONE_API_KEY'') of
             None \<Rightarrow> (Inr None, s)
           | Some api_key \<Rightarrow>
               if api_key = [] then (Inr None, s)
               else (case Pinecone_init e api_key of
                       Some exc \<Rightarrow> (Inl exc, s)
                     | None \<Rightarrow> (Inr (Some (Pinecone api_key)), s\<lparr>pc_client := Some (Pinecone api_key)\<rparr>))))"

subsection \<open>\<open>extract_text\<close>\<close>

text \<open>
  \<open>lower\<close> maps the ASCII capitals; \<open>str.lower()\<close> does more, but no other character
  lowers to one of \<open>.pdf\<close>, so the comparison with \<open>".pdf"\<close> is the same.
\<close>

definition lower :: "pystr \<Rightarrow> pystr" where
  "lower s = map (\<lambda>c. if 65 \<le> c \<and> c \<le> 90 then c + 32 else c) s"

fun join :: "pystr \<Rightarrow> pystr list \<Rightarrow> pystr" where
  "join sep [] = []"
| "join sep [x] = x"
| "join sep (x # y # ys) = x @ sep @ join sep (y # ys)"

text \<open>The generator \<open>page.extract_text() or "" for page in reader.pages\<close>.\<close>

fun page_texts :: "(exn + pystr option) list \<Rightarrow> exn + pystr list" where
  "page_texts [] = Inr []"
| "page_texts (p # ps) =
     (case p of
        Inl e \<Rightarrow> Inl e
      | Inr t \<Rightarrow>
          (case page_texts ps of
             Inl e \<Rightarrow> Inl e
           | Inr ts \<Rightarrow> Inr ((case t of None \<Rightarrow> [] | Some x \<Rightarrow> x) # ts)))"

definition extract_text :: "env \<Rightarrow> pystr \<Rightarrow> exn + pystr" where
  "extract_text e path =
     (case path_exists e path of
        Inl exc \<Rightarrow> Inl exc
      | Inr found \<Rightarrow>
          if \<not> found then Inl (FileNotFoundError (str ''file not found: '' @ path))
          else if lower (path_suffix e path) = str ''.pdf'' then
            (case pdf_pages e path of
               Inl exc \<Rightarrow> Inl exc
             | Inr pages \<Rightarrow>
                 (case page_texts pages of
                    Inl exc \<Rightarrow> Inl exc
                  | Inr ts \<Rightarrow> Inr (join [10] ts)))
          else
            (case open_read e path of
               Inl exc \<Rightarrow> Inl exc
             | Inr bs \<Rightarrow> read_text Ignore bs))"

subsection \<open>\<open>upsert_to_pinecone\<close> and \<open>process_ingestion\<close>\<close>

text \<open>
  The loop \<open>for i, chunk in enumerate(chunks)\<close>: \<open>i\<close> is the index of the next chunk and
  \<open>vectors\<close> the list built so far.
\<close>

fun build_vectors ::
  "env \<Rightarrow> OpenAIEmbeddings \<Rightarrow> pystr \<Rightarrow> pystr \<Rightarrow> nat \<Rightarrow> pystr list \<Rightarrow> vector list \<Rightarrow> exn + vector list"
where
  "build_vectors e embeddings coll doc_id i [] vectors = Inr vectors"
| "build_vectors e embeddings coll doc_id i (chunk # chunks) vectors =
     (case embed_query e embeddings chunk of
        Inl exc \<Rightarrow> Inl exc
      | Inr embedding \<Rightarrow>
          build_vectors e embeddings coll doc_id (Suc i) chunks
            (vectors @
             [\<lparr>vec_id = doc_id @ str ''-chunk-'' @ str_of_nat i,
               vec_values = embedding,
               vec_metadata =
                 \<lparr>md_collection_id = coll, md_document_id = doc_id,
                  md_chunk_id = str ''chunk-'' @ str_of_nat i, md_text = chunk\<rparr>\<rparr>]))"

definition upsert_to_pinecone ::
  "env \<Rightarrow> Pinecone \<Rightarrow> pystr list \<Rightarrow> pystr \<Rightarrow> pystr \<Rightarrow> OpenAIEmbeddings \<Rightarrow> state \<Rightarrow> exn option \<times> state"
where
  "upsert_to_pinecone e pc chunks coll doc_id embeddings s =
     (case Index_init e pc (VECTOR_INDEX e) of
        Some exc \<Rightarrow> (Some exc, s)
      | None \<Rightarrow>
          (case build_vectors e embeddings coll doc_id 0 chunks [] of
             Inl exc \<Rightarrow> (Some exc, s)
           | Inr vectors \<Rightarrow>
               (index_upsert e (Index pc (VECTOR_INDEX e)) vectors coll,
                s\<lparr>upsert_calls := upsert_calls s @
                    [\<lparr>up_index = Index pc (VECTOR_INDEX e), up_vectors = vectors, up_namespace = coll\<rparr>]\<rparr>)))"

text \<open>
  The body of the \<open>try\<close> of \<open>process_ingestion\<close> up to the call of \<open>upsert_to_pinecone\<close>:
  the exception raised, or the chunks when none is.
\<close>

definition ingestion_steps :: "env \<Rightarrow> DocumentRecord \<Rightarrow> state \<Rightarrow> (exn + pystr list) \<times> state" where
  "ingestion_steps e record s =
     (case extract_text e (storage_uri record) of
        Inl exc \<Rightarrow> (Inl exc, s)
      | Inr text \<Rightarrow>
          (case split_text e 800 120 text of
             Inl exc \<Rightarrow> (Inl exc, s)
           | Inr chunks \<Rightarrow>
               if chunks = [] then (Inl (RuntimeError (str ''no text extracted'')), s)
               else
                 (case (if OPENAI_API_KEY e \<noteq> []
                        then OpenAIEmbeddings_init e (OPENAI_EMBED_MODEL e) (OPENAI_API_KEY e)
                        else None) of
                    Some exc \<Rightarrow> (Inl exc, s)
                  | None \<Rightarrow>
                      (case get_pinecone e s of
                         (Inl exc, s1) \<Rightarrow> (Inl exc, s1)
                       | (Inr pc, s1) \<Rightarrow>
                           (case pc of
                              Some client \<Rightarrow>
                                if OPENAI_API_KEY e \<noteq> []
                                then (case upsert_to_pinecone e client chunks (collection_id record)
                                             (document_id record)
                                             (OpenAIEmbeddings (OPENAI_EMBED_MODEL e) (OPENAI_API_KEY e)) s1 of
                                        (Some exc, s2) \<Rightarrow> (Inl exc, s2)
                                      | (None, s2) \<Rightarrow> (Inr chunks, s2))
                                else (Inl (RuntimeError
                                        (str ''missing OPENAI_API_KEY or PINECONE_API_KEY for ingestion'')), s1)
                            | None \<Rightarrow>
                                (Inl (RuntimeError
                                   (str ''missing OPENAI_API_KEY or PINECONE_API_KEY for ingestion'')), s1))))))"

text \<open>
  \<open>process_ingestion\<close>: no record under the key, nothing happens; otherwise the record ends
  as \<open>"ready"\<close> with the count of chunks in its note, or as \<open>"error"\<close> with \<open>str(exc)\<close>.
\<close>

definition process_ingestion :: "env \<Rightarrow> pystr \<Rightarrow> state \<Rightarrow> state" where
  "process_ingestion e doc s =
     (case DOCUMENTS s doc of
        None \<Rightarrow> s
      | Some record \<Rightarrow>
          (case ingestion_steps e record s of
             (Inr chunks, s') \<Rightarrow>
               s'\<lparr>DOCUMENTS := (DOCUMENTS s')(doc \<mapsto>
                    record\<lparr>status := str ''ready'',
                           note' := Some (str ''Upserted '' @ str_of_nat (length chunks)
                                         @ str '' chunks to Pinecone.'')\<rparr>)\<rparr>
           | (Inl exc, s') \<Rightarrow>
               s'\<lparr>DOCUMENTS := (DOCUMENTS s')(doc \<mapsto>
                    record\<lparr>status := str ''error'', note' := Some (str_exc exc)\<rparr>)\<rparr>))"

subsection \<open>The HTTP boundary: the token gate and \<open>ingest\<close>\<close>

text \<open>
  A parsed JSON body: any JSON value. The fields of an object are strings, as the
  dataclass declares the fields they fill.
\<close>

datatype json =
    JNull
  | JBool bool
  | JInt int
  | JFloat real
  | JString pystr
  | JArray "json list"
  | JObject "pystr \<rightharpoonup> pystr"

text \<open>
  What the handlers read of a request: the path of its URL, its headers (looked up by
  lower-case name), and the result of \<open>await request.json()\<close>, the JSON value of the body
  or the exception of the parser.
\<close>

record request =
  url_path :: pystr
  headers :: "pystr \<rightharpoonup> pystr"
  json :: "exn + json"

text \<open>
  The middleware. \<open>call_next\<close> is the rest of the application; the gate either raises
  \<open>HTTPException(401)\<close> or hands the request on and returns what \<open>call_next\<close> returns.
\<close>

definition verify_service_token ::
  "env \<Rightarrow> request \<Rightarrow> (request \<Rightarrow> 's \<Rightarrow> (exn + 'r) \<times> 's) \<Rightarrow> 's \<Rightarrow> (exn + 'r) \<times> 's"
where
  "verify_service_token e request call_next s =
     (if prefix (str ''/internal/'') (url_path request) \<and> SERVICE_TOKEN e \<noteq> []
      then (if headers request (str ''x-service-token'') \<noteq> Some (SERVICE_TOKEN e)
            then (Inl (HTTPException 401 (str ''unauthorized'')), s)
            else call_next request s)
      else call_next request s)"

text \<open>
  The operations of the handlers on the payload, with Python's behaviour on each kind of
  value. \<open>key in payload\<close>: a key of an object, an element of a list, a substring of a
  string; any other value is not iterable. The messages are CPython 3.11's.
\<close>

fun contains :: "json \<Rightarrow> pystr \<Rightarrow> exn + bool" where
  "contains (JObject d) key = Inr (d key \<noteq> None)"
| "contains (JArray xs) key = Inr (JString key \<in> set xs)"
| "contains (JString t) key = Inr (sublist key t)"
| "contains JNull key = Inl (TypeError (str ''argument of type '' @ [39] @ str ''NoneType'' @ [39] @ str '' is not iterable''))"
| "contains (JBool b) key = Inl (TypeError (str ''argument of type '' @ [39] @ str ''bool'' @ [39] @ str '' is not iterable''))"
| "contains (JInt i) key = Inl (TypeError (str ''argument of type '' @ [39] @ str ''int'' @ [39] @ str '' is not iterable''))"
| "contains (JFloat x) key = Inl (TypeError (str ''argument of type '' @ [39] @ str ''float'' @ [39] @ str '' is not iterable''))"

text \<open>\<open>payload[key]\<close> with a string key.\<close>

fun getitem :: "json \<Rightarrow> pystr \<Rightarrow> exn + pystr" where
  "getitem (JObject d) key = (case d key of None \<Rightarrow> Inl (KeyError key) | Some v \<Rightarrow> Inr v)"
| "getitem (JArray xs) key = Inl (TypeError (str ''list indices must be integers or slices, not str''))"
| "getitem (JString t) key = Inl (TypeError (str ''string indices must be integers, not '' @ [39] @ str ''str'' @ [39]))"
| "getitem JNull key = Inl (TypeError ([39] @ str ''NoneType'' @ [39] @ str '' object is not subscriptable''))"
| "getitem (JBool b) key = Inl (TypeError ([39] @ str ''bool'' @ [39] @ str '' object is not subscriptable''))"
| "getitem (JInt i) key = Inl (TypeError ([39] @ str ''int'' @ [39] @ str '' object is not subscriptable''))"
| "getitem (JFloat x) key = Inl (TypeError ([39] @ str ''float'' @ [39] @ str '' object is not subscriptable''))"

text \<open>\<open>payload.get(key)\<close>: only a dict has the method.\<close>

fun get :: "json \<Rightarrow> pystr \<Rightarrow> exn + pystr option" where
  "get (JObject d) key = Inr (d key)"
| "get (JArray xs) key = Inl (AttributeError ([39] @ str ''list'' @ [39] @ str '' object has no attribute '' @ [39] @ str ''get'' @ [39]))"
| "get (JString t) key = Inl (AttributeError ([39] @ str ''str'' @ [39] @ str '' object has no attribute '' @ [39] @ str ''get'' @ [39]))"
| "get JNull key = Inl (AttributeError ([39] @ str ''NoneType'' @ [39] @ str '' object has no attribute '' @ [39] @ str ''get'' @ [39]))"
| "get (JBool b) key = Inl (AttributeError ([39] @ str ''bool'' @ [39] @ str '' object has no attribute '' @ [39] @ str ''get'' @ [39]))"
| "get (JInt i) key = Inl (AttributeError ([39] @ str ''int'' @ [39] @ str '' object has no attribute '' @ [39] @ str ''get'' @ [39]))"
| "get (JFloat x) key = Inl (AttributeError ([39] @ str ''float'' @ [39] @ str '' object has no attribute '' @ [39] @ str ''get'' @ [39]))"

text \<open>\<open>d.get(key, default)\<close> of a dict with string values.\<close>

definition dict_get :: "(pystr \<rightharpoonup> pystr) \<Rightarrow> pystr \<Rightarrow> pystr \<Rightarrow> pystr" where
  "dict_get d key dflt = (case d key of None \<Rightarrow> dflt | Some v \<Rightarrow> v)"

definition required :: "pystr list" where
  "required = [str ''document_id'', str ''collection_id'', str ''storage_uri'']"

text \<open>
  \<open>any(field not in payload for field in required)\<close>: the fields are tried in order, the
  first one missing decides, an exception of \<open>in\<close> ends the test.
\<close>

fun any_missing :: "json \<Rightarrow> pystr list \<Rightarrow> exn + bool" where
  "any_missing payload [] = Inr False"
| "any_missing payload (field # others) =
     (case contains payload field of
        Inl exc \<Rightarrow> Inl exc
      | Inr present \<Rightarrow> if present then any_missing payload others else Inr True)"

text \<open>
  \<open>ingest\<close>, at time \<open>now\<close>. \<open>tasks\<close> is the \<open>BackgroundTasks\<close> of the request, the list of the
  document ids \<open>process_ingestion\<close> is to be called with. The result is the response or the
  exception raised, the tasks and the state.
\<close>

definition ingest ::
  "request \<Rightarrow> real \<Rightarrow> pystr list \<Rightarrow> state \<Rightarrow> (exn + (pystr \<times> pystr) list) \<times> pystr list \<times> state"
where
  "ingest request now tasks s =
     (case json request of
        Inl exc \<Rightarrow> (Inl exc, tasks, s)
      | Inr payload \<Rightarrow>
          (case any_missing payload required of
             Inl exc \<Rightarrow> (Inl exc, tasks, s)
           | Inr missing \<Rightarrow>
               if missing
               then (Inl (HTTPException 400 (str ''missing required fields'')), tasks, s)
               else
                 (case getitem payload (str ''document_id'') of
                    Inl exc \<Rightarrow> (Inl exc, tasks, s)
                  | Inr d \<Rightarrow>
                      (case getitem payload (str ''collection_id'') of
                         Inl exc \<Rightarrow> (Inl exc, tasks, s)
                       | Inr c \<Rightarrow>
                           (case getitem payload (str ''storage_uri'') of
                              Inl exc \<Rightarrow> (Inl exc, tasks, s)
                            | Inr u \<Rightarrow>
                                (case get payload (str ''title'') of
                                   Inl exc \<Rightarrow> (Inl exc, tasks, s)
                                 | Inr t \<Rightarrow>
                                     (Inr [(str ''status'', str ''accepted''), (str ''document_id'', d)],
                                      tasks @ [d],
                                      s\<lparr>DOCUMENTS := (DOCUMENTS s)(d \<mapsto>
                                           \<lparr>document_id = d, collection_id = c, storage_uri = u,
                                            title = (case t of
                                                       None \<Rightarrow> str ''Untitled''
                                                     | Some x \<Rightarrow> if x = [] then str ''Untitled'' else x),
                                            status = str ''processing'', note' = None,
                                            created_at = now\<rparr>)\<rparr>)))))))"

text \<open>
  The application around a route, as FastAPI builds it: \<open>ServerErrorMiddleware\<close>
  outermost, then the middleware \<open>verify_service_token\<close>, then \<open>ExceptionMiddleware\<close>, then
  the route. \<open>ExceptionMiddleware\<close> turns an \<open>HTTPException\<close> raised by the route into a
  response with its status code and lets any other exception pass. An exception that
  reaches \<open>ServerErrorMiddleware\<close>, so every exception raised by \<open>verify_service_token\<close>
  itself, \<open>HTTPException\<close> or not, is answered with status 500. A reply is the status code
  and, when the route returned, what it returned.
\<close>

datatype 'r reply = Reply nat "'r option"

definition exception_middleware ::
  "(request \<Rightarrow> 's \<Rightarrow> (exn + 'r) \<times> 's) \<Rightarrow> request \<Rightarrow> 's \<Rightarrow> (exn + 'r reply) \<times> 's"
where
  "exception_middleware route request s =
     (case route request s of
        (Inr x, s') \<Rightarrow> (Inr (Reply 200 (Some x)), s')
      | (Inl exc, s') \<Rightarrow>
          (case exc of
             HTTPException code detail \<Rightarrow> (Inr (Reply code None), s')
           | _ \<Rightarrow> (Inl exc, s')))"

definition server_error_middleware :: "(exn + 'r reply) \<times> 's \<Rightarrow> 'r reply \<times> 's" where
  "server_error_middleware outcome =
     (case outcome of
        (Inr reply, s') \<Rightarrow> (reply, s')
      | (Inl exc, s') \<Rightarrow> (Reply 500 None, s'))"

definition app ::
  "env \<Rightarrow> (request \<Rightarrow> 's \<Rightarrow> (exn + 'r) \<times> 's) \<Rightarrow> request \<Rightarrow> 's \<Rightarrow> 'r reply \<times> 's"
where
  "app e route request s =
     server_error_middleware (verify_service_token e request (exception_middleware route) s)"

text \<open>The route \<open>POST /internal/ingest\<close> at time \<open>now\<close>, on the state and the tasks.\<close>

definition ingest_route ::
  "real \<Rightarrow> request \<Rightarrow> pystr list \<times> state \<Rightarrow> (exn + (pystr \<times> pystr) list) \<times> pystr list \<times> state"
where
  "ingest_route now request ts = ingest request now (fst ts) (snd ts)"

subsection \<open>The streaming query\<close>

datatype score = FloatScore real | MetaScore pystr | IntScore int

record source =
  src_collection_id :: pystr
  src_document_id :: pystr
  src_chunk_id :: pystr
  src_score :: score

definition match_md :: "match \<Rightarrow> (pystr \<rightharpoonup> pystr)" where
  "match_md m = (case m_metadata m of None \<Rightarrow> Map.empty | Some md \<Rightarrow> md)"

definition match_source :: "pystr \<Rightarrow> match \<Rightarrow> source" where
  "match_source coll m =
     \<lparr>src_collection_id = dict_get (match_md m) (str ''collection_id'') coll,
      src_document_id = dict_get (match_md m) (str ''document_id'') [],
      src_chunk_id = dict_get (match_md m) (str ''chunk_id'') [],
      src_score = (case m_score m of
                     Some x \<Rightarrow> FloatScore x
                   | None \<Rightarrow> (case match_md m (str ''score'') of
                                None \<Rightarrow> IntScore 0
                              | Some v \<Rightarrow> MetaScore v))\<rparr>"

definition retrieve_context ::
  "env \<Rightarrow> pystr \<Rightarrow> pystr \<Rightarrow> state \<Rightarrow> (exn + pystr \<times> source list) \<times> state"
where
  "retrieve_context e query coll s =
     (case get_pinecone e s of
        (Inl exc, s1) \<Rightarrow> (Inl exc, s1)
      | (Inr pc, s1) \<Rightarrow>
          (case pc of
             None \<Rightarrow> (Inl (RuntimeError (str ''vector or embedding client missing'')), s1)
           | Some client \<Rightarrow>
               if OPENAI_API_KEY e = []
               then (Inl (RuntimeError (str ''vector or embedding client missing'')), s1)
               else
                 (case Index_init e client (VECTOR_INDEX e) of
                    Some exc \<Rightarrow> (Inl exc, s1)
                  | None \<Rightarrow>
                      (case OpenAIEmbeddings_init e (OPENAI_EMBED_MODEL e) (OPENAI_API_KEY e) of
                         Some exc \<Rightarrow> (Inl exc, s1)
                       | None \<Rightarrow>
                           (case embed_query e (OpenAIEmbeddings (OPENAI_EMBED_MODEL e) (OPENAI_API_KEY e))
                                   query of
                              Inl exc \<Rightarrow> (Inl exc, s1)
                            | Inr q_emb \<Rightarrow>
                                (case index_query e (Index client (VECTOR_INDEX e)) q_emb 5 coll of
                                   Inl exc \<Rightarrow> (Inl exc, s1)
                                 | Inr matches \<Rightarrow>
                                     (Inr (join [10, 10]
                                             (map (\<lambda>m. dict_get (match_md m) (str ''text'') []) matches),
                                           map (match_source coll) matches), s1)))))))"

text \<open>\<open>get_langchain_chain\<close> under \<open>lru_cache\<close>: built once, a failed build is not cached.\<close>

definition get_langchain_chain :: "env \<Rightarrow> state \<Rightarrow> (exn + Chain) \<times> state" where
  "get_langchain_chain e s =
     (case chain_cache s of
        Some chain \<Rightarrow> (Inr chain, s)
      | None \<Rightarrow>
          (case ChatOpenAI_init e (OPENAI_MODEL e) of
             Some exc \<Rightarrow> (Inl exc, s)
           | None \<Rightarrow> (Inr (Chain (OPENAI_MODEL e)), s\<lparr>chain_cache := Some (Chain (OPENAI_MODEL e))\<rparr>)))"

text \<open>
  What the generator \<open>token_stream\<close> does, in order: the byte strings it yields and the
  sleeps it awaits, in seconds. A run is the list of these events and the exception that
  ends it, if one does.
\<close>

datatype event = Yield bytes | Sleep real

text \<open>
  The \<open>async for\<close> over the chunks of the chain: \<open>ending\<close> is the exception the chain raises
  after its last chunk, if any.
\<close>

fun stream_chunks :: "pystr list \<Rightarrow> exn option \<Rightarrow> event list \<times> exn option" where
  "stream_chunks [] ending = ([], ending)"
| "stream_chunks (chunk # chunks) ending =
     (case utf8_encode chunk of
        Inl exc \<Rightarrow> ([], Some exc)
      | Inr b \<Rightarrow>
          (case stream_chunks chunks ending of
             (events, r) \<Rightarrow> (Yield (b @ [10]) # events, r)))"

definition synthetic :: "pystr \<Rightarrow> pystr list" where
  "synthetic prompt =
     [str ''Synthesizing an AuroraMind reply. '',
      str ''This stubbed AI service will echo your prompt back. '',
      str ''Prompt: '' @ [34] @ prompt @ [34] @ str ''. '',
      str ''Connect Pinecone and OpenAI to replace this path.'']"

text \<open>The loop of the \<open>except\<close> branch: sleep 0.12 s, then yield the piece and a newline.\<close>

fun play_synthetic :: "pystr list \<Rightarrow> event list \<times> exn option" where
  "play_synthetic [] = ([], None)"
| "play_synthetic (piece # pieces) =
     (case utf8_encode piece of
        Inl exc \<Rightarrow> ([Sleep (12 / 100)], Some exc)
      | Inr b \<Rightarrow>
          (case play_synthetic pieces of
             (events, r) \<Rightarrow> (Sleep (12 / 100) # Yield (b @ [10]) # events, r)))"

text \<open>The \<open>try\<close> block of \<open>token_stream\<close>: retrieval, the chain, the streamed chunks.\<close>

definition try_stream :: "env \<Rightarrow> pystr \<Rightarrow> pystr \<Rightarrow> state \<Rightarrow> (event list \<times> exn option) \<times> state" where
  "try_stream e prompt kb_id s =
     (case retrieve_context e prompt (if kb_id = [] then str ''kb-default'' else kb_id) s of
        (Inl exc, s1) \<Rightarrow> (([], Some exc), s1)
      | (Inr (context, sources), s1) \<Rightarrow>
          (case get_langchain_chain e s1 of
             (Inl exc, s2) \<Rightarrow> (([], Some exc), s2)
           | (Inr chain, s2) \<Rightarrow>
               (case chain_astream e chain prompt context of
                  (chunks, ending) \<Rightarrow> (stream_chunks chunks ending, s2))))"

definition token_stream :: "env \<Rightarrow> pystr \<Rightarrow> pystr \<Rightarrow> state \<Rightarrow> (event list \<times> exn option) \<times> state" where
  "token_stream e prompt kb_id s =
     (case try_stream e prompt kb_id s of
        ((events, None), s') \<Rightarrow> ((events, None), s')
      | ((events, Some exc), s') \<Rightarrow>
          (case play_synthetic (synthetic prompt) of
             (fallback, r) \<Rightarrow> ((events @ fallback, r), s')))"

text \<open>
  \<open>rag_stream\<close> itself only reads the payload: it raises \<open>HTTPException(400)\<close> or returns the
  streaming response, whose body is \<open>token_stream\<close> with this prompt and \<open>kb_id\<close>, run by the
  framework afterwards.
\<close>

definition rag_stream :: "request \<Rightarrow> exn + pystr \<times> pystr" where
  "rag_stream request =
     (case json request of
        Inl exc \<Rightarrow> Inl exc
      | Inr payload \<Rightarrow>
          (case get payload (str ''prompt'') of
             Inl exc \<Rightarrow> Inl exc
           | Inr prompt \<Rightarrow>
               (case get payload (str ''session_id'') of
                  Inl exc \<Rightarrow> Inl exc
                | Inr session_id \<Rightarrow>
                    (case get payload (str ''kb_id'') of
                       Inl exc \<Rightarrow> Inl exc
                     | Inr kb_id \<Rightarrow>
                         (case prompt of
                            None \<Rightarrow> Inl (HTTPException 400 (str ''prompt is required''))
                          | Some p \<Rightarrow>
                              if p = [] then Inl (HTTPException 400 (str ''prompt is required''))
                              else Inr (p, (case kb_id of None \<Rightarrow> [] | Some k \<Rightarrow> k)))))))"

subsection \<open>The states the service can reach\<close>

text \<open>
  The handlers and the background task run one at a time on the event loop, and none of
  them yields control between reading and writing \<open>DOCUMENTS\<close>; so the states an observer
  can see are those reached from the initial one by whole runs of \<open>ingest\<close>,
  \<open>process_ingestion\<close> and \<open>token_stream\<close>.
\<close>

inductive reachable :: "env \<Rightarrow> state \<Rightarrow> bool" for e :: env where
  start: "reachable e initial_state"
| after_ingest: "reachable e s \<Longrightarrow> ingest request now tasks s = (r, tasks', s') \<Longrightarrow> reachable e s'"
| after_process_ingestion: "reachable e s \<Longrightarrow> reachable e (process_ingestion e doc s)"
| after_token_stream: "reachable e s \<Longrightarrow> token_stream e prompt kb_id s = (r, s') \<Longrightarrow> reachable e s'"

subsection \<open>A small environment for concrete runs\<close>

text \<open>
  An environment given by the process environment variables and the files on disk. A
  path is one file name, and \<open>os.stat\<close> refuses a name of more than 255 characters. Every
  other library call succeeds, the splitter returns the whole text as one chunk (none for the
  empty text), the embedding of a text is its length, and the chain streams the question
  back as one chunk.
\<close>

definition demo_env :: "(pystr \<rightharpoonup> pystr) \<Rightarrow> (pystr \<rightharpoonup> bytes) \<Rightarrow> env" where
  "demo_env vars files =
     \<lparr>environ = vars,
      on_disk = (\<lambda>p. files p \<noteq> None),
      path_exists = (\<lambda>p. if 255 < length p
                          then Inl (OSError (str ''[Errno 36] File name too long: '' @ [39] @ p @ [39]))
                          else Inr (files p \<noteq> None)),
      path_suffix = (\<lambda>p. if 46 \<in> set p then 46 # rev (takeWhile (\<lambda>c. c \<noteq> 46) (rev p)) else []),
      open_read = (\<lambda>p. case files p of
                          None \<Rightarrow> Inl (LibraryError (str ''[Errno 2] No such file or directory''))
                        | Some bs \<Rightarrow> Inr bs),
      pdf_pages = (\<lambda>p. Inr []),
      split_text = (\<lambda>n k t. Inr (if t = [] then [] else [t])),
      OpenAIEmbeddings_init = (\<lambda>m k. None),
      Pinecone_init = (\<lambda>k. None),
      Index_init = (\<lambda>pc n. None),
      embed_query = (\<lambda>emb t. Inr [real (length t)]),
      index_upsert = (\<lambda>i vs ns. None),
      index_query = (\<lambda>i v k ns. Inr []),
      ChatOpenAI_init = (\<lambda>m. None),
      chain_astream = (\<lambda>c q ctx. ([q], None))\<rparr>"

definition demo_keys :: "pystr \<rightharpoonup> pystr" where
  "demo_keys = [str ''OPENAI_API_KEY'' \<mapsto> str ''sk'', str ''PINECONE_API_KEY'' \<mapsto> str ''pk'',
                str ''SERVICE_TOKEN'' \<mapsto> str ''s3cret'']"

text \<open>
  Three files: \<open>a.txt\<close> holds the bytes \<open>61 FF 62\<close> (\<open>a\<close>, a byte that is not UTF-8, \<open>b\<close>),
  \<open>b.txt\<close> holds \<open>hi\<close>, \<open>e.txt\<close> is empty.
\<close>

definition demo_files :: "pystr \<rightharpoonup> bytes" where
  "demo_files = [str ''a.txt'' \<mapsto> [0x61, 0xFF, 0x62], str ''b.txt'' \<mapsto> [0x68, 0x69],
                 str ''e.txt'' \<mapsto> []]"

definition demo_record :: "pystr \<Rightarrow> pystr \<Rightarrow> DocumentRecord" where
  "demo_record d uri =
     \<lparr>document_id = d, collection_id = str ''kb'', storage_uri = uri, title = str ''Untitled'',
      status = str ''processing'', note' = None, created_at = 0\<rparr>"

definition demo_state :: "pystr \<Rightarrow> state" where
  "demo_state uri = initial_state\<lparr>DOCUMENTS := [str ''d1'' \<mapsto> demo_record (str ''d1'') uri]\<rparr>"

definition demo_request :: "pystr \<Rightarrow> (pystr \<rightharpoonup> pystr) \<Rightarrow> json \<Rightarrow> request" where
  "demo_request p hs payload = \<lparr>url_path = p, headers = hs, json = Inr payload\<rparr>"

text \<open>An ingest payload with the three required fields.\<close>

definition demo_payload :: "pystr \<rightharpoonup> pystr" where
  "demo_payload = [str ''document_id'' \<mapsto> str ''d1'', str ''collection_id'' \<mapsto> str ''kb'',
                   str ''storage_uri'' \<mapsto> str ''b.txt'']"

text \<open>A file name of 300 characters.\<close>

definition long_name :: pystr where
  "long_name = replicate 300 120"


section \<open>Properties\<close>

subsection \<open>Auxiliary facts\<close>

lemma str_error_neq_ready: "str ''error'' \<noteq> str ''ready''"
  by (simp add: str_def)

lemma get_pinecone_documents:
  "get_pinecone e s = (r, s') \<Longrightarrow> DOCUMENTS s' = DOCUMENTS s"
  by (auto simp: get_pinecone_def split: option.splits if_splits)

lemma get_pinecone_upsert_calls:
  "get_pinecone e s = (r, s') \<Longrightarrow> upsert_calls s' = upsert_calls s"
  by (auto simp: get_pinecone_def split: option.splits if_splits)

lemma upsert_to_pinecone_documents:
  "upsert_to_pinecone e pc chunks coll d emb s = (r, s') \<Longrightarrow> DOCUMENTS s' = DOCUMENTS s"
  by (auto simp: upsert_to_pinecone_def split: option.splits sum.splits)

lemma ingestion_steps_documents:
  "ingestion_steps e r s = (res, s') \<Longrightarrow> DOCUMENTS s' = DOCUMENTS s"
  unfolding ingestion_steps_def
  by (auto split: sum.splits if_splits option.splits prod.splits)
     (metis get_pinecone_documents upsert_to_pinecone_documents)+

lemma process_ingestion_failed:
  "DOCUMENTS s doc = Some r \<Longrightarrow> ingestion_steps e r s = (Inl exc, s') \<Longrightarrow>
   DOCUMENTS (process_ingestion e doc s) doc
     = Some (r\<lparr>status := str ''error'', note' := Some (str_exc exc)\<rparr>)"
  by (simp add: process_ingestion_def)

lemma process_ingestion_ready:
  "DOCUMENTS s doc = Some r \<Longrightarrow> ingestion_steps e r s = (Inr chunks, s') \<Longrightarrow>
   DOCUMENTS (process_ingestion e doc s) doc
     = Some (r\<lparr>status := str ''ready'',
               note' := Some (str ''Upserted '' @ str_of_nat (length chunks) @ str '' chunks to Pinecone.'')\<rparr>)"
  by (simp add: process_ingestion_def)

lemma no_chunks_steps:
  "extract_text e (storage_uri r) = Inr t \<Longrightarrow> split_text e 800 120 t = Inr [] \<Longrightarrow>
   ingestion_steps e r s = (Inl (RuntimeError (str ''no text extracted'')), s)"
  by (simp add: ingestion_steps_def)

lemma build_vectors_spec:
  "build_vectors e emb coll d i chunks acc = Inr vs \<Longrightarrow>
     length vs = length acc + length chunks \<and> take (length acc) vs = acc \<and>
     (\<forall>j < length chunks.
        vec_id (vs ! (length acc + j)) = d @ str ''-chunk-'' @ str_of_nat (i + j)
      \<and> vec_metadata (vs ! (length acc + j))
          = \<lparr>md_collection_id = coll, md_document_id = d,
             md_chunk_id = str ''chunk-'' @ str_of_nat (i + j), md_text = chunks ! j\<rparr>
      \<and> embed_query e emb (chunks ! j) = Inr (vec_values (vs ! (length acc + j))))"
proof (induction chunks arbitrary: i acc)
  case Nil
  then show ?case by simp
next
  case (Cons chunk chunks)
  from Cons.prems obtain v where v: "embed_query e emb chunk = Inr v"
    by (cases "embed_query e emb chunk") auto
  define x where "x = \<lparr>vec_id = d @ str ''-chunk-'' @ str_of_nat i, vec_values = v,
               vec_metadata = \<lparr>md_collection_id = coll, md_document_id = d,
                  md_chunk_id = str ''chunk-'' @ str_of_nat i, md_text = chunk\<rparr>\<rparr>"
  from Cons.prems v have rec: "build_vectors e emb coll d (Suc i) chunks (acc @ [x]) = Inr vs"
    by (simp add: x_def)
  note ih = Cons.IH [OF rec]
  from ih have len: "length vs = length acc + length (chunk # chunks)" by simp
  from ih have tk: "take (Suc (length acc)) vs = acc @ [x]" by simp
  have tk': "take (length acc) vs = acc"
  proof -
    have "take (length acc) (take (Suc (length acc)) vs) = take (length acc) (acc @ [x])"
      by (simp only: tk)
    then show ?thesis by simp
  qed
  have at0: "vs ! length acc = x"
  proof -
    have "(take (Suc (length acc)) vs) ! length acc = (acc @ [x]) ! length acc"
      by (simp only: tk)
    then show ?thesis by simp
  qed
  have nth: "\<forall>j < length (chunk # chunks).
        vec_id (vs ! (length acc + j)) = d @ str ''-chunk-'' @ str_of_nat (i + j)
      \<and> vec_metadata (vs ! (length acc + j))
          = \<lparr>md_collection_id = coll, md_document_id = d,
             md_chunk_id = str ''chunk-'' @ str_of_nat (i + j), md_text = (chunk # chunks) ! j\<rparr>
      \<and> embed_query e emb ((chunk # chunks) ! j) = Inr (vec_values (vs ! (length acc + j)))"
  proof (intro allI impI)
    fix j assume j: "j < length (chunk # chunks)"
    show "vec_id (vs ! (length acc + j)) = d @ str ''-chunk-'' @ str_of_nat (i + j)
      \<and> vec_metadata (vs ! (length acc + j))
          = \<lparr>md_collection_id = coll, md_document_id = d,
             md_chunk_id = str ''chunk-'' @ str_of_nat (i + j), md_text = (chunk # chunks) ! j\<rparr>
      \<and> embed_query e emb ((chunk # chunks) ! j) = Inr (vec_values (vs ! (length acc + j)))"
    proof (cases j)
      case 0
      then show ?thesis using at0 v by (simp add: x_def)
    next
      case (Suc k)
      with j have "k < length chunks" by simp
      with ih have "vec_id (vs ! (length (acc @ [x]) + k)) = d @ str ''-chunk-'' @ str_of_nat (Suc i + k)
      \<and> vec_metadata (vs ! (length (acc @ [x]) + k))
          = \<lparr>md_collection_id = coll, md_document_id = d,
             md_chunk_id = str ''chunk-'' @ str_of_nat (Suc i + k), md_text = chunks ! k\<rparr>
      \<and> embed_query e emb (chunks ! k) = Inr (vec_values (vs ! (length (acc @ [x]) + k)))"
        by blast
      then show ?thesis using Suc by simp
    qed
  qed
  from len tk' nth show ?case by blast
qed

lemma retrieve_context_documents:
  "retrieve_context e q coll s = (r, s') \<Longrightarrow> DOCUMENTS s' = DOCUMENTS s"
  unfolding retrieve_context_def
  by (auto split: sum.splits if_splits option.splits prod.splits dest: get_pinecone_documents)

lemma get_langchain_chain_documents:
  "get_langchain_chain e s = (r, s') \<Longrightarrow> DOCUMENTS s' = DOCUMENTS s"
  by (auto simp: get_langchain_chain_def split: option.splits)

lemma try_stream_documents:
  "try_stream e prompt kb s = (r, s') \<Longrightarrow> DOCUMENTS s' = DOCUMENTS s"
  unfolding try_stream_def
  by (auto split: sum.splits prod.splits)
     (metis retrieve_context_documents get_langchain_chain_documents)+

lemma token_stream_documents:
  "token_stream e prompt kb s = (r, s') \<Longrightarrow> DOCUMENTS s' = DOCUMENTS s"
  unfolding token_stream_def
  by (auto split: prod.splits option.splits dest: try_stream_documents)

lemma ingest_rejected:
  "ingest request now tasks s = (Inl exc, tasks', s') \<Longrightarrow> s' = s \<and> tasks' = tasks"
  unfolding ingest_def
  by (auto split: sum.splits if_splits option.splits)

lemma ingest_accepted:
  assumes "ingest request now tasks s = (Inr resp, tasks', s')"
  shows "\<exists>d r. s' = s\<lparr>DOCUMENTS := (DOCUMENTS s)(d \<mapsto> r)\<rparr> \<and> status r = str ''processing''
           \<and> document_id r = d \<and> tasks' = tasks @ [d]"
proof -
  from assms obtain d c u t where
    s': "s' = s\<lparr>DOCUMENTS := (DOCUMENTS s)(d \<mapsto>
            \<lparr>document_id = d, collection_id = c, storage_uri = u, title = t,
             status = str ''processing'', note' = None, created_at = now\<rparr>)\<rparr>"
    and t: "tasks' = tasks @ [d]"
    unfolding ingest_def
    by (auto split: sum.splits if_splits option.splits)
  define r where "r = \<lparr>document_id = d, collection_id = c, storage_uri = u, title = t,
             status = str ''processing'', note' = None, created_at = now\<rparr>"
  from s' t have "s' = s\<lparr>DOCUMENTS := (DOCUMENTS s)(d \<mapsto> r)\<rparr> \<and> status r = str ''processing''
           \<and> document_id r = d \<and> tasks' = tasks @ [d]"
    by (simp add: r_def)
  then show ?thesis by blast
qed

lemma process_ingestion_effect:
  "DOCUMENTS (process_ingestion e doc s) k = Some r' \<Longrightarrow>
     DOCUMENTS s k = Some r' \<or> (k = doc \<and> (status r' = str ''ready'' \<or> status r' = str ''error''))"
proof (cases "DOCUMENTS s doc")
  case None
  then show "DOCUMENTS (process_ingestion e doc s) k = Some r' \<Longrightarrow> ?thesis"
    by (simp add: process_ingestion_def)
next
  case (Some r)
  obtain res s1 where st: "ingestion_steps e r s = (res, s1)"
    by (cases "ingestion_steps e r s")
  then have d: "DOCUMENTS s1 = DOCUMENTS s" by (rule ingestion_steps_documents)
  assume "DOCUMENTS (process_ingestion e doc s) k = Some r'"
  with Some st d show ?thesis
    by (cases res) (auto simp: process_ingestion_def split: if_splits)
qed

lemma status_values:
  "str ''processing'' \<noteq> default_status" "str ''ready'' \<noteq> default_status"
  "str ''error'' \<noteq> default_status"
  by (simp_all add: default_status_def str_def)

lemma reachable_status:
  "reachable e s \<Longrightarrow> DOCUMENTS s k = Some r \<Longrightarrow>
     status r = str ''processing'' \<or> status r = str ''ready'' \<or> status r = str ''error''"
proof (induction arbitrary: k r rule: reachable.induct)
  case start
  then show ?case by (simp add: initial_state_def)
next
  case (after_ingest s request now tasks res tasks' s')
  show ?case
  proof (cases res)
    case (Inl exc)
    with ingest_rejected after_ingest.hyps(2) have "s' = s" by blast
    with after_ingest.IH after_ingest.prems show ?thesis by simp
  next
    case (Inr resp)
    with ingest_accepted after_ingest.hyps(2) obtain d r0 where
      s': "s' = s\<lparr>DOCUMENTS := (DOCUMENTS s)(d \<mapsto> r0)\<rparr>" and r0: "status r0 = str ''processing''"
      by blast
    show ?thesis
    proof (cases "k = d")
      case True
      with s' after_ingest.prems r0 show ?thesis by simp
    next
      case False
      with s' after_ingest.prems have "DOCUMENTS s k = Some r" by simp
      then show ?thesis by (rule after_ingest.IH)
    qed
  qed
next
  case (after_process_ingestion s doc)
  from process_ingestion_effect [OF after_process_ingestion.prems] after_process_ingestion.IH
  show ?case by blast
next
  case (after_token_stream s prompt kb_id res s')
  from token_stream_documents [OF after_token_stream.hyps(2)] after_token_stream.IH after_token_stream.prems
  show ?case by simp
qed

subsection \<open>Facts about the small environment\<close>

lemma demo_documents: "DOCUMENTS (demo_state u) (str ''d1'') = Some (demo_record (str ''d1'') u)"
  by (simp add: demo_state_def)

lemma demo_documents_other: "DOCUMENTS (demo_state u) (str ''d2'') = None"
  by (simp add: demo_state_def str_def)

lemma demo_path_exists:
  "path_exists (demo_env vars demo_files) (str ''a.txt'') = Inr True"
  "path_exists (demo_env vars demo_files) (str ''b.txt'') = Inr True"
  "path_exists (demo_env vars demo_files) (str ''e.txt'') = Inr True"
  "path_exists (demo_env vars demo_files) (str ''zz.txt'') = Inr False"
  by (simp_all add: demo_env_def demo_files_def str_def)

lemma demo_extract_text:
  "extract_text (demo_env vars demo_files) (str ''a.txt'') = Inr (str ''ab'')"
  "extract_text (demo_env vars demo_files) (str ''b.txt'') = Inr (str ''hi'')"
  "extract_text (demo_env vars demo_files) (str ''e.txt'') = Inr []"
  by (simp_all add: extract_text_def demo_env_def demo_files_def str_def lower_def read_text_def
      utf8_decode_def utf8_next_def)

lemma demo_split_text:
  "split_text (demo_env vars files) 800 120 [] = Inr []"
  "split_text (demo_env vars files) 800 120 (str ''hi'') = Inr [str ''hi'']"
  by (simp_all add: demo_env_def str_def)

lemma demo_config:
  "OPENAI_API_KEY (demo_env demo_keys files) = str ''sk''"
  "OPENAI_API_KEY (demo_env Map.empty files) = []"
  "SERVICE_TOKEN (demo_env demo_keys files) = str ''s3cret''"
  "SERVICE_TOKEN (demo_env Map.empty files) = []"
  "VECTOR_INDEX (demo_env demo_keys files) = str ''kb-index''"
  "OPENAI_EMBED_MODEL (demo_env demo_keys files) = str ''text-embedding-3-small''"
  by (simp_all add: OPENAI_API_KEY_def SERVICE_TOKEN_def VECTOR_INDEX_def OPENAI_EMBED_MODEL_def
      get_env_def demo_env_def demo_keys_def str_def)

lemma demo_init:
  "OpenAIEmbeddings_init (demo_env vars files) m k = None"
  "Pinecone_init (demo_env vars files) k = None"
  "Index_init (demo_env vars files) pc n = None"
  "ChatOpenAI_init (demo_env vars files) m = None"
  by (simp_all add: demo_env_def)

lemma demo_get_pinecone:
  "get_pinecone (demo_env demo_keys files) (demo_state u)
     = (Inr (Some (Pinecone (str ''pk''))), (demo_state u)\<lparr>pc_client := Some (Pinecone (str ''pk''))\<rparr>)"
  "get_pinecone (demo_env Map.empty files) s = (Inr (pc_client s), s)"
  by (simp_all add: get_pinecone_def demo_env_def demo_keys_def demo_state_def initial_state_def str_def
      split: option.splits)

lemma demo_upsert:
  "upsert_to_pinecone (demo_env demo_keys demo_files) pc [str ''hi''] coll d emb s
     = (None, s\<lparr>upsert_calls := upsert_calls s @
          [\<lparr>up_index = Index pc (str ''kb-index''),
            up_vectors = [\<lparr>vec_id = d @ str ''-chunk-0'', vec_values = [2],
                           vec_metadata = \<lparr>md_collection_id = coll, md_document_id = d,
                             md_chunk_id = str ''chunk-0'', md_text = str ''hi''\<rparr>\<rparr>],
            up_namespace = coll\<rparr>]\<rparr>)"
  by (simp add: upsert_to_pinecone_def VECTOR_INDEX_def get_env_def demo_env_def demo_keys_def
      str_def str_of_nat.simps [of 0])

lemma demo_steps:
  "ingestion_steps (demo_env demo_keys demo_files) (demo_record (str ''d1'') (str ''b.txt''))
     (demo_state (str ''b.txt''))
   = (Inr [str ''hi''],
      snd (upsert_to_pinecone (demo_env demo_keys demo_files) (Pinecone (str ''pk'')) [str ''hi''] (str ''kb'')
        (str ''d1'') (OpenAIEmbeddings (str ''text-embedding-3-small'') (str ''sk''))
        ((demo_state (str ''b.txt''))\<lparr>pc_client := Some (Pinecone (str ''pk''))\<rparr>)))"
proof -
  have sk: "str ''sk'' \<noteq> []" by (simp add: str_def)
  have hi: "[str ''hi''] \<noteq> []" by simp
  show ?thesis
    unfolding ingestion_steps_def
    by (simp add: demo_record_def demo_extract_text demo_split_text demo_config sk demo_init
        demo_get_pinecone demo_upsert)
qed

lemma demo_ingest:
  "ingest (demo_request (str ''/internal/ingest'') hs (JObject demo_payload)) 0 [] initial_state
     = (Inr [(str ''status'', str ''accepted''), (str ''document_id'', str ''d1'')], [str ''d1''],
        demo_state (str ''b.txt''))"
  by (simp add: ingest_def demo_request_def demo_payload_def required_def demo_state_def
      demo_record_def initial_state_def str_def)

subsection \<open>Ingestion\<close>

text \<open>
  Claim C10. \<open>process_ingestion\<close> called with a document id that is not a key of
  \<open>DOCUMENTS\<close> returns (the function has no exceptional result) and leaves the whole state,
  the status map and every record in it, as it was.
\<close>

theorem process_ingestion_unknown_document:
  "DOCUMENTS s doc = None \<Longrightarrow> process_ingestion e doc s = s"
  by (simp add: process_ingestion_def)

theorem process_ingestion_unknown_document_witness:
  "DOCUMENTS (demo_state (str ''b.txt'')) (str ''d2'') = None
   \<and> process_ingestion (demo_env demo_keys demo_files) (str ''d2'') (demo_state (str ''b.txt''))
       = demo_state (str ''b.txt'')"
  using process_ingestion_unknown_document
          [of "demo_state (str ''b.txt'')" "str ''d2''" "demo_env demo_keys demo_files"]
  by (simp add: demo_documents_other)

text \<open>
  Claim C1. When the text extracted for a document splits into no chunks,
  \<open>process_ingestion\<close> sets the record to status \<open>"error"\<close> with the note
  \<open>"no text extracted"\<close>; the status is not \<open>"ready"\<close>, nothing else of the state changes, and
  no call of \<open>index.upsert\<close> is made.
\<close>

theorem no_chunks_is_error:
  assumes "DOCUMENTS s doc = Some r"
    and "extract_text e (storage_uri r) = Inr t"
    and "split_text e 800 120 t = Inr []"
  shows "process_ingestion e doc s =
           s\<lparr>DOCUMENTS := (DOCUMENTS s)(doc \<mapsto>
               r\<lparr>status := str ''error'', note' := Some (str ''no text extracted'')\<rparr>)\<rparr>
         \<and> (\<exists>r' n. DOCUMENTS (process_ingestion e doc s) doc = Some r' \<and> status r' = str ''error''
              \<and> status r' \<noteq> str ''ready'' \<and> note' r' = Some n \<and> sublist (str ''no text extracted'') n)
         \<and> upsert_calls (process_ingestion e doc s) = upsert_calls s"
  using assms by (simp add: process_ingestion_def no_chunks_steps str_error_neq_ready)

theorem no_chunks_is_error_witness:
  "DOCUMENTS (demo_state (str ''e.txt'')) (str ''d1'') = Some (demo_record (str ''d1'') (str ''e.txt''))
   \<and> extract_text (demo_env demo_keys demo_files) (storage_uri (demo_record (str ''d1'') (str ''e.txt'')))
       = Inr []
   \<and> split_text (demo_env demo_keys demo_files) 800 120 [] = Inr []
   \<and> upsert_calls (process_ingestion (demo_env demo_keys demo_files) (str ''d1'') (demo_state (str ''e.txt'')))
       = upsert_calls (demo_state (str ''e.txt''))"
proof -
  have h1: "DOCUMENTS (demo_state (str ''e.txt'')) (str ''d1'')
              = Some (demo_record (str ''d1'') (str ''e.txt''))"
    by (rule demo_documents)
  have h2: "extract_text (demo_env demo_keys demo_files)
              (storage_uri (demo_record (str ''d1'') (str ''e.txt''))) = Inr []"
    by (simp add: demo_record_def demo_extract_text)
  have h3: "split_text (demo_env demo_keys demo_files) 800 120 [] = Inr []"
    by (rule demo_split_text)
  from no_chunks_is_error [OF h1 h2 h3] h1 h2 h3 show ?thesis by blast
qed

text \<open>
  Claim C8, as the code has it. A path that does not exist, and of which \<open>Path.exists()\<close>
  says so, makes \<open>extract_text\<close> raise \<open>FileNotFoundError\<close> with the message
  \<open>"file not found: {path}"\<close>; when \<open>exists()\<close> itself raises, \<open>extract_text\<close> raises that
  exception instead. In an ingestion run either exception is caught and the record gets
  status \<open>"error"\<close> with the message of the exception as its note.
\<close>

theorem missing_path_error:
  "(\<not> on_disk e p \<and> path_exists e p = Inr (on_disk e p) \<longrightarrow>
      extract_text e p = Inl (FileNotFoundError (str ''file not found: '' @ p))
      \<and> (\<forall>s doc r. DOCUMENTS s doc = Some r \<and> storage_uri r = p \<longrightarrow>
            process_ingestion e doc s =
              s\<lparr>DOCUMENTS := (DOCUMENTS s)(doc \<mapsto>
                  r\<lparr>status := str ''error'', note' := Some (str ''file not found: '' @ p)\<rparr>)\<rparr>))
   \<and> (\<forall>exc. path_exists e p = Inl exc \<longrightarrow>
      extract_text e p = Inl exc
      \<and> (\<forall>s doc r. DOCUMENTS s doc = Some r \<and> storage_uri r = p \<longrightarrow>
            process_ingestion e doc s =
              s\<lparr>DOCUMENTS := (DOCUMENTS s)(doc \<mapsto>
                  r\<lparr>status := str ''error'', note' := Some (str_exc exc)\<rparr>)\<rparr>))"
  by (auto simp: extract_text_def process_ingestion_def ingestion_steps_def)

theorem missing_path_error_witness:
  "\<not> on_disk (demo_env demo_keys demo_files) (str ''zz.txt'')
   \<and> path_exists (demo_env demo_keys demo_files) (str ''zz.txt'')
       = Inr (on_disk (demo_env demo_keys demo_files) (str ''zz.txt''))
   \<and> extract_text (demo_env demo_keys demo_files) (str ''zz.txt'')
       = Inl (FileNotFoundError (str ''file not found: '' @ str ''zz.txt''))
   \<and> process_ingestion (demo_env demo_keys demo_files) (str ''d1'') (demo_state (str ''zz.txt''))
       = (demo_state (str ''zz.txt''))\<lparr>DOCUMENTS := (DOCUMENTS (demo_state (str ''zz.txt'')))(str ''d1'' \<mapsto>
            (demo_record (str ''d1'') (str ''zz.txt''))
              \<lparr>status := str ''error'', note' := Some (str ''file not found: '' @ str ''zz.txt'')\<rparr>)\<rparr>"
proof -
  have h1: "\<not> on_disk (demo_env demo_keys demo_files) (str ''zz.txt'')"
    by (simp add: demo_env_def demo_files_def str_def)
  have h2: "path_exists (demo_env demo_keys demo_files) (str ''zz.txt'')
              = Inr (on_disk (demo_env demo_keys demo_files) (str ''zz.txt''))"
    by (simp add: demo_env_def demo_files_def str_def)
  have u: "storage_uri (demo_record (str ''d1'') (str ''zz.txt'')) = str ''zz.txt''"
    by (simp add: demo_record_def)
  from missing_path_error [of "demo_env demo_keys demo_files" "str ''zz.txt''"] h1 h2
    demo_documents [of "str ''zz.txt''"] u
  show ?thesis by blast
qed

text \<open>
  The claim as the specification words it, for every path that does not exist, fails at a
  file name of 300 characters: nothing of that name is on disk, \<open>exists()\<close> raises the
  \<open>OSError\<close> of \<open>os.stat\<close>, and that, not a \<open>FileNotFoundError\<close>, is what \<open>extract_text\<close>
  raises.
\<close>

theorem missing_path_counterexample:
  "\<not> on_disk (demo_env demo_keys demo_files) long_name
   \<and> extract_text (demo_env demo_keys demo_files) long_name
       = Inl (OSError (str ''[Errno 36] File name too long: '' @ [39] @ long_name @ [39]))
   \<and> extract_text (demo_env demo_keys demo_files) long_name
       \<noteq> Inl (FileNotFoundError (str ''file not found: '' @ long_name))"
proof -
  have len: "length long_name = 300"
    by (simp add: long_name_def)
  have short: "demo_files q \<noteq> None \<Longrightarrow> length q = 5" for q
    by (auto simp: demo_files_def str_def split: if_splits)
  have "demo_files long_name = None"
  proof (rule ccontr)
    assume "demo_files long_name \<noteq> None"
    then have "length long_name = 5" by (rule short)
    with len show False by simp
  qed
  then have a: "\<not> on_disk (demo_env demo_keys demo_files) long_name"
    by (simp add: demo_env_def)
  from len have b: "extract_text (demo_env demo_keys demo_files) long_name
       = Inl (OSError (str ''[Errno 36] File name too long: '' @ [39] @ long_name @ [39]))"
    by (simp add: extract_text_def demo_env_def)
  from a b show ?thesis by simp
qed

text \<open>
  Claim C2. For a document id present in \<open>DOCUMENTS\<close>: whichever stage raises (extraction,
  chunking, building the embedding client, getting the Pinecone client, the upsert) the
  record ends with status \<open>"error"\<close> and the message of that exception as its note, a
  missing credential or client giving the message of the \<open>RuntimeError\<close> the function
  raises itself; when every stage succeeds the status is \<open>"ready"\<close>. In every case the
  record is left as \<open>"ready"\<close> or \<open>"error"\<close>.
\<close>

theorem process_ingestion_terminal:
  assumes "DOCUMENTS s doc = Some r"
  shows "(\<forall>exc. extract_text e (storage_uri r) = Inl exc \<longrightarrow>
            DOCUMENTS (process_ingestion e doc s) doc
              = Some (r\<lparr>status := str ''error'', note' := Some (str_exc exc)\<rparr>))
       \<and> (\<forall>t exc. extract_text e (storage_uri r) = Inr t \<and> split_text e 800 120 t = Inl exc \<longrightarrow>
            DOCUMENTS (process_ingestion e doc s) doc
              = Some (r\<lparr>status := str ''error'', note' := Some (str_exc exc)\<rparr>))
       \<and> (\<forall>t chunks exc. extract_text e (storage_uri r) = Inr t \<and> split_text e 800 120 t = Inr chunks
              \<and> chunks \<noteq> [] \<and> OPENAI_API_KEY e \<noteq> []
              \<and> OpenAIEmbeddings_init e (OPENAI_EMBED_MODEL e) (OPENAI_API_KEY e) = Some exc \<longrightarrow>
            DOCUMENTS (process_ingestion e doc s) doc
              = Some (r\<lparr>status := str ''error'', note' := Some (str_exc exc)\<rparr>))
       \<and> (\<forall>t chunks exc s1. extract_text e (storage_uri r) = Inr t \<and> split_text e 800 120 t = Inr chunks
              \<and> chunks \<noteq> []
              \<and> (OPENAI_API_KEY e \<noteq> [] \<longrightarrow>
                   OpenAIEmbeddings_init e (OPENAI_EMBED_MODEL e) (OPENAI_API_KEY e) = None)
              \<and> get_pinecone e s = (Inl exc, s1) \<longrightarrow>
            DOCUMENTS (process_ingestion e doc s) doc
              = Some (r\<lparr>status := str ''error'', note' := Some (str_exc exc)\<rparr>))
       \<and> (\<forall>t chunks pc s1. extract_text e (storage_uri r) = Inr t \<and> split_text e 800 120 t = Inr chunks
              \<and> chunks \<noteq> []
              \<and> (OPENAI_API_KEY e \<noteq> [] \<longrightarrow>
                   OpenAIEmbeddings_init e (OPENAI_EMBED_MODEL e) (OPENAI_API_KEY e) = None)
              \<and> get_pinecone e s = (Inr pc, s1) \<and> (OPENAI_API_KEY e = [] \<or> pc = None) \<longrightarrow>
            DOCUMENTS (process_ingestion e doc s) doc
              = Some (r\<lparr>status := str ''error'',
                        note' := Some (str ''missing OPENAI_API_KEY or PINECONE_API_KEY for ingestion'')\<rparr>))
       \<and> (\<forall>t chunks client s1 exc s2. extract_text e (storage_uri r) = Inr t
              \<and> split_text e 800 120 t = Inr chunks \<and> chunks \<noteq> [] \<and> OPENAI_API_KEY e \<noteq> []
              \<and> OpenAIEmbeddings_init e (OPENAI_EMBED_MODEL e) (OPENAI_API_KEY e) = None
              \<and> get_pinecone e s = (Inr (Some client), s1)
              \<and> upsert_to_pinecone e client chunks (collection_id r) (document_id r)
                   (OpenAIEmbeddings (OPENAI_EMBED_MODEL e) (OPENAI_API_KEY e)) s1 = (Some exc, s2) \<longrightarrow>
            DOCUMENTS (process_ingestion e doc s) doc
              = Some (r\<lparr>status := str ''error'', note' := Some (str_exc exc)\<rparr>))
       \<and> (\<forall>t chunks client s1 s2. extract_text e (storage_uri r) = Inr t
              \<and> split_text e 800 120 t = Inr chunks \<and> chunks \<noteq> [] \<and> OPENAI_API_KEY e \<noteq> []
              \<and> OpenAIEmbeddings_init e (OPENAI_EMBED_MODEL e) (OPENAI_API_KEY e) = None
              \<and> get_pinecone e s = (Inr (Some client), s1)
              \<and> upsert_to_pinecone e client chunks (collection_id r) (document_id r)
                   (OpenAIEmbeddings (OPENAI_EMBED_MODEL e) (OPENAI_API_KEY e)) s1 = (None, s2) \<longrightarrow>
            (\<exists>r'. DOCUMENTS (process_ingestion e doc s) doc = Some r' \<and> status r' = str ''ready''))
       \<and> (\<exists>r'. DOCUMENTS (process_ingestion e doc s) doc = Some r'
              \<and> (status r' = str ''ready'' \<or> status r' = str ''error''))"
proof -
  have terminal: "\<exists>r'. DOCUMENTS (process_ingestion e doc s) doc = Some r'
              \<and> (status r' = str ''ready'' \<or> status r' = str ''error'')"
  proof (cases "ingestion_steps e r s")
    case (Pair res s')
    then show ?thesis
      using assms by (cases res) (simp_all add: process_ingestion_def)
  qed
  have a: "\<And>exc. extract_text e (storage_uri r) = Inl exc \<Longrightarrow> ingestion_steps e r s = (Inl exc, s)"
    by (simp add: ingestion_steps_def)
  have b: "\<And>t exc. extract_text e (storage_uri r) = Inr t \<Longrightarrow> split_text e 800 120 t = Inl exc
             \<Longrightarrow> ingestion_steps e r s = (Inl exc, s)"
    by (simp add: ingestion_steps_def)
  have c: "\<And>t chunks exc. extract_text e (storage_uri r) = Inr t \<Longrightarrow> split_text e 800 120 t = Inr chunks
             \<Longrightarrow> chunks \<noteq> [] \<Longrightarrow> OPENAI_API_KEY e \<noteq> []
             \<Longrightarrow> OpenAIEmbeddings_init e (OPENAI_EMBED_MODEL e) (OPENAI_API_KEY e) = Some exc
             \<Longrightarrow> ingestion_steps e r s = (Inl exc, s)"
    by (simp add: ingestion_steps_def)
  have d: "\<And>t chunks exc s1. extract_text e (storage_uri r) = Inr t \<Longrightarrow> split_text e 800 120 t = Inr chunks
             \<Longrightarrow> chunks \<noteq> []
             \<Longrightarrow> (OPENAI_API_KEY e \<noteq> [] \<longrightarrow>
                   OpenAIEmbeddings_init e (OPENAI_EMBED_MODEL e) (OPENAI_API_KEY e) = None)
             \<Longrightarrow> get_pinecone e s = (Inl exc, s1)
             \<Longrightarrow> ingestion_steps e r s = (Inl exc, s1)"
    by (simp add: ingestion_steps_def)
  have m: "\<And>t chunks pc s1. extract_text e (storage_uri r) = Inr t \<Longrightarrow> split_text e 800 120 t = Inr chunks
             \<Longrightarrow> chunks \<noteq> []
             \<Longrightarrow> (OPENAI_API_KEY e \<noteq> [] \<longrightarrow>
                   OpenAIEmbeddings_init e (OPENAI_EMBED_MODEL e) (OPENAI_API_KEY e) = None)
             \<Longrightarrow> get_pinecone e s = (Inr pc, s1) \<Longrightarrow> OPENAI_API_KEY e = [] \<or> pc = None
             \<Longrightarrow> ingestion_steps e r s
                   = (Inl (RuntimeError (str ''missing OPENAI_API_KEY or PINECONE_API_KEY for ingestion'')), s1)"
    by (auto simp: ingestion_steps_def split: option.splits)
  have u: "\<And>t chunks client s1 res s2. extract_text e (storage_uri r) = Inr t
             \<Longrightarrow> split_text e 800 120 t = Inr chunks \<Longrightarrow> chunks \<noteq> [] \<Longrightarrow> OPENAI_API_KEY e \<noteq> []
             \<Longrightarrow> OpenAIEmbeddings_init e (OPENAI_EMBED_MODEL e) (OPENAI_API_KEY e) = None
             \<Longrightarrow> get_pinecone e s = (Inr (Some client), s1)
             \<Longrightarrow> upsert_to_pinecone e client chunks (collection_id r) (document_id r)
                   (OpenAIEmbeddings (OPENAI_EMBED_MODEL e) (OPENAI_API_KEY e)) s1 = (res, s2)
             \<Longrightarrow> ingestion_steps e r s = (case res of Some exc \<Rightarrow> Inl exc | None \<Rightarrow> Inr chunks, s2)"
    by (auto simp: ingestion_steps_def split: option.splits)
  show ?thesis
    apply (intro conjI allI impI)
    subgoal by (auto dest!: a simp: process_ingestion_def assms)
    subgoal by (auto dest!: b simp: process_ingestion_def assms)
    subgoal by (auto dest!: c simp: process_ingestion_def assms)
    subgoal for t chunks exc s1 using d [of t chunks exc s1] by (simp add: process_ingestion_def assms)
    subgoal for t chunks pc s1 using m [of t chunks pc s1] by (simp add: process_ingestion_def assms)
    subgoal for t chunks client s1 exc s2 using u [of t chunks client s1 "Some exc" s2]
      by (simp add: process_ingestion_def assms)
    subgoal for t chunks client s1 s2 using u [of t chunks client s1 None s2]
      by (simp add: process_ingestion_def assms)
    subgoal by (rule terminal)
    done
qed

theorem process_ingestion_terminal_witness:
  "DOCUMENTS (demo_state (str ''zz.txt'')) (str ''d1'') = Some (demo_record (str ''d1'') (str ''zz.txt''))
   \<and> DOCUMENTS (process_ingestion (demo_env demo_keys demo_files) (str ''d1'') (demo_state (str ''zz.txt'')))
        (str ''d1'')
       = Some ((demo_record (str ''d1'') (str ''zz.txt''))
                \<lparr>status := str ''error'', note' := Some (str ''file not found: zz.txt'')\<rparr>)
   \<and> DOCUMENTS (process_ingestion (demo_env Map.empty demo_files) (str ''d1'') (demo_state (str ''b.txt'')))
        (str ''d1'')
       = Some ((demo_record (str ''d1'') (str ''b.txt''))
                \<lparr>status := str ''error'',
                 note' := Some (str ''missing OPENAI_API_KEY or PINECONE_API_KEY for ingestion'')\<rparr>)
   \<and> (\<exists>r'. DOCUMENTS (process_ingestion (demo_env demo_keys demo_files) (str ''d1'')
                (demo_state (str ''b.txt''))) (str ''d1'') = Some r'
          \<and> status r' = str ''ready'')"
proof -
  have h1: "DOCUMENTS (demo_state (str ''zz.txt'')) (str ''d1'')
              = Some (demo_record (str ''d1'') (str ''zz.txt''))"
    by (rule demo_documents)
  have x1: "extract_text (demo_env demo_keys demo_files)
              (storage_uri (demo_record (str ''d1'') (str ''zz.txt'')))
            = Inl (FileNotFoundError (str ''file not found: zz.txt''))"
    by (simp add: extract_text_def demo_record_def demo_path_exists) (simp add: str_def)
  have c1: "DOCUMENTS (process_ingestion (demo_env demo_keys demo_files) (str ''d1'')
              (demo_state (str ''zz.txt''))) (str ''d1'')
       = Some ((demo_record (str ''d1'') (str ''zz.txt''))
                \<lparr>status := str ''error'', note' := Some (str ''file not found: zz.txt'')\<rparr>)"
    using process_ingestion_terminal [OF h1, of "demo_env demo_keys demo_files", THEN conjunct1,
        rule_format, OF x1]
    by simp
  have h2: "DOCUMENTS (demo_state (str ''b.txt'')) (str ''d1'')
              = Some (demo_record (str ''d1'') (str ''b.txt''))"
    by (rule demo_documents)
  have u: "storage_uri (demo_record (str ''d1'') (str ''b.txt'')) = str ''b.txt''"
    "collection_id (demo_record (str ''d1'') (str ''b.txt'')) = str ''kb''"
    "document_id (demo_record (str ''d1'') (str ''b.txt'')) = str ''d1''"
    by (simp_all add: demo_record_def)
  have nz: "[str ''hi''] \<noteq> []" "str ''sk'' \<noteq> []"
    by (simp_all add: str_def)
  have c2: "DOCUMENTS (process_ingestion (demo_env Map.empty demo_files) (str ''d1'')
              (demo_state (str ''b.txt''))) (str ''d1'')
       = Some ((demo_record (str ''d1'') (str ''b.txt''))
                \<lparr>status := str ''error'',
                 note' := Some (str ''missing OPENAI_API_KEY or PINECONE_API_KEY for ingestion'')\<rparr>)"
    by (rule process_ingestion_terminal [OF h2, of "demo_env Map.empty demo_files",
          THEN conjunct2, THEN conjunct2, THEN conjunct2, THEN conjunct2, THEN conjunct1, rule_format,
          of "str ''hi''" "[str ''hi'']" "pc_client (demo_state (str ''b.txt''))" "demo_state (str ''b.txt'')"])
       (simp add: u nz demo_extract_text demo_split_text demo_config demo_get_pinecone)
  have c3: "\<exists>r'. DOCUMENTS (process_ingestion (demo_env demo_keys demo_files) (str ''d1'')
                (demo_state (str ''b.txt''))) (str ''d1'') = Some r'
          \<and> status r' = str ''ready''"
    by (rule process_ingestion_terminal [OF h2, of "demo_env demo_keys demo_files",
          THEN conjunct2, THEN conjunct2, THEN conjunct2, THEN conjunct2, THEN conjunct2, THEN conjunct2,
          THEN conjunct1, rule_format,
          of "str ''hi''" "[str ''hi'']" "Pinecone (str ''pk'')"
             "(demo_state (str ''b.txt''))\<lparr>pc_client := Some (Pinecone (str ''pk''))\<rparr>"
             "snd (upsert_to_pinecone (demo_env demo_keys demo_files) (Pinecone (str ''pk'')) [str ''hi'']
                (str ''kb'') (str ''d1'') (OpenAIEmbeddings (str ''text-embedding-3-small'') (str ''sk''))
                ((demo_state (str ''b.txt''))\<lparr>pc_client := Some (Pinecone (str ''pk''))\<rparr>))"])
       (simp add: u nz demo_extract_text demo_split_text demo_config demo_get_pinecone demo_upsert
          demo_init)
  from h1 c1 c2 c3 show ?thesis by blast
qed

text \<open>
  Claim C6. When an ingestion ends with status \<open>"ready"\<close>, exactly one call of
  \<open>index.upsert\<close> has been added: its namespace is the record's \<open>collection_id\<close>, its vectors
  are one per chunk of the split text, in chunk order, the \<open>i\<close>-th with id
  \<open>"{document_id}-chunk-{i}"\<close>, with metadata \<open>collection_id\<close>, \<open>document_id\<close>,
  \<open>chunk_id = "chunk-{i}"\<close> and \<open>text\<close> the chunk, and with the embedding of the chunk as its
  values; the note says how many chunks were upserted.
\<close>

theorem successful_ingestion_upserts:
  assumes "DOCUMENTS s doc = Some r"
    and "DOCUMENTS (process_ingestion e doc s) doc = Some r'"
    and "status r' = str ''ready''"
  shows "\<exists>t chunks client vs.
           extract_text e (storage_uri r) = Inr t \<and> split_text e 800 120 t = Inr chunks
         \<and> upsert_calls (process_ingestion e doc s)
             = upsert_calls s @ [\<lparr>up_index = Index client (VECTOR_INDEX e), up_vectors = vs,
                                  up_namespace = collection_id r\<rparr>]
         \<and> length vs = length chunks
         \<and> (\<forall>i < length chunks.
               vec_id (vs ! i) = document_id r @ str ''-chunk-'' @ str_of_nat i
             \<and> vec_metadata (vs ! i)
                 = \<lparr>md_collection_id = collection_id r, md_document_id = document_id r,
                    md_chunk_id = str ''chunk-'' @ str_of_nat i, md_text = chunks ! i\<rparr>
             \<and> embed_query e (OpenAIEmbeddings (OPENAI_EMBED_MODEL e) (OPENAI_API_KEY e)) (chunks ! i)
                 = Inr (vec_values (vs ! i)))
         \<and> note' r' = Some (str ''Upserted '' @ str_of_nat (length chunks) @ str '' chunks to Pinecone.'')"
proof -
  obtain res s' where steps: "ingestion_steps e r s = (res, s')"
    by (cases "ingestion_steps e r s")
  have "str ''error'' \<noteq> str ''ready''" by (simp add: str_def)
  with assms steps obtain chunks where res: "res = Inr chunks"
    by (cases res) (auto simp: process_ingestion_def)
  from assms steps res have r': "r' = r\<lparr>status := str ''ready'',
      note' := Some (str ''Upserted '' @ str_of_nat (length chunks) @ str '' chunks to Pinecone.'')\<rparr>"
    and calls: "upsert_calls (process_ingestion e doc s) = upsert_calls s'"
    by (auto simp: process_ingestion_def)
  from steps res obtain t client s1 where
    t: "extract_text e (storage_uri r) = Inr t" and sp: "split_text e 800 120 t = Inr chunks"
    and gp: "get_pinecone e s = (Inr (Some client), s1)"
    and up: "upsert_to_pinecone e client chunks (collection_id r) (document_id r)
               (OpenAIEmbeddings (OPENAI_EMBED_MODEL e) (OPENAI_API_KEY e)) s1 = (None, s')"
    unfolding ingestion_steps_def
    by (auto split: sum.splits if_splits option.splits prod.splits)
  from up obtain vs where
    bv: "build_vectors e (OpenAIEmbeddings (OPENAI_EMBED_MODEL e) (OPENAI_API_KEY e))
           (collection_id r) (document_id r) 0 chunks [] = Inr vs"
    and s': "upsert_calls s' = upsert_calls s1 @ [\<lparr>up_index = Index client (VECTOR_INDEX e), up_vectors = vs,
                                  up_namespace = collection_id r\<rparr>]"
    unfolding upsert_to_pinecone_def
    by (auto split: sum.splits option.splits)
  from gp have s1: "upsert_calls s1 = upsert_calls s" by (rule get_pinecone_upsert_calls)
  from build_vectors_spec [OF bv]
  have len: "length vs = length chunks"
    and nth: "\<forall>i < length chunks.
               vec_id (vs ! i) = document_id r @ str ''-chunk-'' @ str_of_nat i
             \<and> vec_metadata (vs ! i)
                 = \<lparr>md_collection_id = collection_id r, md_document_id = document_id r,
                    md_chunk_id = str ''chunk-'' @ str_of_nat i, md_text = chunks ! i\<rparr>
             \<and> embed_query e (OpenAIEmbeddings (OPENAI_EMBED_MODEL e) (OPENAI_API_KEY e)) (chunks ! i)
                 = Inr (vec_values (vs ! i))"
    by simp_all
  from r' have nt: "note' r' = Some (str ''Upserted '' @ str_of_nat (length chunks) @ str '' chunks to Pinecone.'')"
    by simp
  from t sp calls s' s1 len nth nt show ?thesis by auto
qed

theorem successful_ingestion_upserts_witness:
  "DOCUMENTS (demo_state (str ''b.txt'')) (str ''d1'') = Some (demo_record (str ''d1'') (str ''b.txt''))
   \<and> DOCUMENTS (process_ingestion (demo_env demo_keys demo_files) (str ''d1'') (demo_state (str ''b.txt'')))
        (str ''d1'')
       = Some ((demo_record (str ''d1'') (str ''b.txt''))
            \<lparr>status := str ''ready'', note' := Some (str ''Upserted 1 chunks to Pinecone.'')\<rparr>)
   \<and> (\<exists>client vs.
         upsert_calls (process_ingestion (demo_env demo_keys demo_files) (str ''d1'')
             (demo_state (str ''b.txt'')))
           = upsert_calls (demo_state (str ''b.txt''))
             @ [\<lparr>up_index = Index client (VECTOR_INDEX (demo_env demo_keys demo_files)), up_vectors = vs,
                 up_namespace = collection_id (demo_record (str ''d1'') (str ''b.txt''))\<rparr>])"
proof -
  have h1: "DOCUMENTS (demo_state (str ''b.txt'')) (str ''d1'')
              = Some (demo_record (str ''d1'') (str ''b.txt''))"
    by (rule demo_documents)
  have h2: "DOCUMENTS (process_ingestion (demo_env demo_keys demo_files) (str ''d1'')
              (demo_state (str ''b.txt''))) (str ''d1'')
       = Some ((demo_record (str ''d1'') (str ''b.txt''))
            \<lparr>status := str ''ready'', note' := Some (str ''Upserted 1 chunks to Pinecone.'')\<rparr>)"
    using process_ingestion_ready [OF h1 demo_steps]
    by (simp add: str_of_nat.simps [of "Suc 0"] str_def)
  have h3: "status ((demo_record (str ''d1'') (str ''b.txt''))
            \<lparr>status := str ''ready'', note' := Some (str ''Upserted 1 chunks to Pinecone.'')\<rparr>)
            = str ''ready''"
    by simp
  from successful_ingestion_upserts [OF h1 h2 h3] h1 h2 show ?thesis by blast
qed

subsection \<open>The status map\<close>

text \<open>
  Claim C9. In every state the service can reach, each record of \<open>DOCUMENTS\<close> has status
  \<open>"processing"\<close>, \<open>"ready"\<close> or \<open>"error"\<close>, never the dataclass default \<open>"queued"\<close>:
  \<open>ingest\<close> stores a record with status \<open>"processing"\<close> or leaves the state alone,
  \<open>process_ingestion\<close> changes at most the record of its document, to \<open>"ready"\<close> or
  \<open>"error"\<close>, and the streaming query does not touch the map.
\<close>

theorem status_never_queued:
  assumes "reachable e s"
  shows "(\<forall>k r. DOCUMENTS s k = Some r \<longrightarrow>
            (status r = str ''processing'' \<or> status r = str ''ready'' \<or> status r = str ''error'')
            \<and> status r \<noteq> default_status)
       \<and> (\<forall>request now tasks resp tasks' s'.
            ingest request now tasks s = (Inr resp, tasks', s') \<longrightarrow>
            (\<exists>d r. s' = s\<lparr>DOCUMENTS := (DOCUMENTS s)(d \<mapsto> r)\<rparr> \<and> status r = str ''processing''))
       \<and> (\<forall>request now tasks exc tasks' s'.
            ingest request now tasks s = (Inl exc, tasks', s') \<longrightarrow> s' = s)
       \<and> (\<forall>doc k r'. DOCUMENTS (process_ingestion e doc s) k = Some r' \<longrightarrow>
            DOCUMENTS s k = Some r' \<or> (k = doc \<and> (status r' = str ''ready'' \<or> status r' = str ''error'')))
       \<and> (\<forall>prompt kb_id r s'. token_stream e prompt kb_id s = (r, s') \<longrightarrow> DOCUMENTS s' = DOCUMENTS s)"
proof (intro conjI allI impI)
  fix k r assume "DOCUMENTS s k = Some r"
  from reachable_status [OF assms this]
  show "status r = str ''processing'' \<or> status r = str ''ready'' \<or> status r = str ''error''" .
  then show "status r \<noteq> default_status" using status_values by auto
next
  fix request now tasks resp tasks' s'
  assume "ingest request now tasks s = (Inr resp, tasks', s')"
  from ingest_accepted [OF this]
  show "\<exists>d r. s' = s\<lparr>DOCUMENTS := (DOCUMENTS s)(d \<mapsto> r)\<rparr> \<and> status r = str ''processing''"
    by blast
next
  fix request now tasks exc tasks' s'
  assume "ingest request now tasks s = (Inl exc, tasks', s')"
  from ingest_rejected [OF this] show "s' = s" by simp
next
  fix doc k r' assume "DOCUMENTS (process_ingestion e doc s) k = Some r'"
  then show "DOCUMENTS s k = Some r' \<or> (k = doc \<and> (status r' = str ''ready'' \<or> status r' = str ''error''))"
    by (rule process_ingestion_effect)
next
  fix prompt kb_id r s' assume "token_stream e prompt kb_id s = (r, s')"
  then show "DOCUMENTS s' = DOCUMENTS s" by (rule token_stream_documents)
qed

theorem status_never_queued_witness:
  "reachable (demo_env demo_keys demo_files) (demo_state (str ''b.txt''))
   \<and> DOCUMENTS (demo_state (str ''b.txt'')) (str ''d1'') = Some (demo_record (str ''d1'') (str ''b.txt''))
   \<and> status (demo_record (str ''d1'') (str ''b.txt'')) \<noteq> default_status"
proof -
  have r: "reachable (demo_env demo_keys demo_files) (demo_state (str ''b.txt''))"
    by (rule reachable.after_ingest [OF reachable.start demo_ingest])
  have d: "DOCUMENTS (demo_state (str ''b.txt'')) (str ''d1'') = Some (demo_record (str ''d1'') (str ''b.txt''))"
    by (rule demo_documents)
  from status_never_queued [OF r, THEN conjunct1, rule_format, OF d]
  have "status (demo_record (str ''d1'') (str ''b.txt'')) \<noteq> default_status" by (rule conjunct2)
  with r d show ?thesis by (intro conjI)
qed

subsection \<open>The HTTP boundary\<close>

lemma ingest_object_missing_field:
  assumes "json request = Inr (JObject payload)"
    and "payload (str ''document_id'') = None \<or> payload (str ''collection_id'') = None
         \<or> payload (str ''storage_uri'') = None"
  shows "ingest request now tasks s
           = (Inl (HTTPException 400 (str ''missing required fields'')), tasks, s)"
  using assms by (auto simp: ingest_def required_def)

lemma route_http_exception:
  "route request s = (Inl (HTTPException code detail), s') \<Longrightarrow> \<not> prefix (str ''/internal/'') (url_path request)
     \<or> SERVICE_TOKEN e = [] \<or> headers request (str ''x-service-token'') = Some (SERVICE_TOKEN e) \<Longrightarrow>
   app e route request s = (Reply code None, s')"
  by (auto simp: app_def verify_service_token_def exception_middleware_def server_error_middleware_def)

lemma route_other_exception:
  "route request s = (Inl exc, s') \<Longrightarrow> \<forall>code detail. exc \<noteq> HTTPException code detail \<Longrightarrow>
   \<not> prefix (str ''/internal/'') (url_path request)
     \<or> SERVICE_TOKEN e = [] \<or> headers request (str ''x-service-token'') = Some (SERVICE_TOKEN e) \<Longrightarrow>
   app e route request s = (Reply 500 None, s')"
  by (cases exc)
     (auto simp: app_def verify_service_token_def exception_middleware_def server_error_middleware_def)

lemma verify_service_token_cases:
  "(prefix (str ''/internal/'') (url_path request) \<and> SERVICE_TOKEN e \<noteq> []
      \<and> headers request (str ''x-service-token'') \<noteq> Some (SERVICE_TOKEN e) \<longrightarrow>
      verify_service_token e request call_next s = (Inl (HTTPException 401 (str ''unauthorized'')), s))
   \<and> (prefix (str ''/internal/'') (url_path request) \<and> SERVICE_TOKEN e \<noteq> []
      \<and> headers request (str ''x-service-token'') = Some (SERVICE_TOKEN e) \<longrightarrow>
      verify_service_token e request call_next s = call_next request s)
   \<and> (SERVICE_TOKEN e = [] \<longrightarrow> verify_service_token e request call_next s = call_next request s)
   \<and> (\<not> prefix (str ''/internal/'') (url_path request) \<longrightarrow>
      verify_service_token e request call_next s = call_next request s)
   \<and> (environ e (str ''SERVICE_TOKEN'') = None \<or> environ e (str ''SERVICE_TOKEN'') = Some []
      \<longrightarrow> SERVICE_TOKEN e = [])"
  by (auto simp: verify_service_token_def SERVICE_TOKEN_def get_env_def)

lemma gate_rejection_reply:
  "prefix (str ''/internal/'') (url_path request) \<Longrightarrow> SERVICE_TOKEN e \<noteq> [] \<Longrightarrow>
   headers request (str ''x-service-token'') \<noteq> Some (SERVICE_TOKEN e) \<Longrightarrow>
   app e route request s = (Reply 500 None, s)"
  by (simp add: app_def verify_service_token_def server_error_middleware_def)

text \<open>
  Claim C5. For a JSON object that lacks one of \<open>document_id\<close>, \<open>collection_id\<close>,
  \<open>storage_uri\<close> the handler raises \<open>HTTPException(400)\<close> and leaves the state and the tasks
  alone (\<open>ingest_object_missing_field\<close>), and no rejected request changes the state
  (\<open>ingest_rejected\<close>). But the test \<open>field not in payload\<close> is made on whatever the body
  parses to: for the body \<open>null\<close>, which has none of the fields, it raises \<open>TypeError\<close>, and
  the client gets status 500, not 400. The status map is unchanged there too.
\<close>

theorem ingest_null_body:
  "ingest (demo_request (str ''/internal/ingest'') [str ''x-service-token'' \<mapsto> str ''s3cret''] JNull)
      0 [] (demo_state (str ''a.txt''))
     = (Inl (TypeError (str ''argument of type '' @ [39] @ str ''NoneType'' @ [39] @ str '' is not iterable'')),
        [], demo_state (str ''a.txt''))
   \<and> app (demo_env demo_keys demo_files) (ingest_route 0)
        (demo_request (str ''/internal/ingest'') [str ''x-service-token'' \<mapsto> str ''s3cret''] JNull)
        ([], demo_state (str ''a.txt''))
     = (Reply 500 None, [], demo_state (str ''a.txt''))"
proof -
  have i: "ingest (demo_request (str ''/internal/ingest'') [str ''x-service-token'' \<mapsto> str ''s3cret''] JNull)
      0 [] (demo_state (str ''a.txt''))
     = (Inl (TypeError (str ''argument of type '' @ [39] @ str ''NoneType'' @ [39] @ str '' is not iterable'')),
        [], demo_state (str ''a.txt''))"
    by (simp add: ingest_def demo_request_def required_def)
  have r: "ingest_route 0
      (demo_request (str ''/internal/ingest'') [str ''x-service-token'' \<mapsto> str ''s3cret''] JNull)
      ([], demo_state (str ''a.txt''))
     = (Inl (TypeError (str ''argument of type '' @ [39] @ str ''NoneType'' @ [39] @ str '' is not iterable'')),
        [], demo_state (str ''a.txt''))"
    using i by (simp add: ingest_route_def)
  have h: "headers (demo_request (str ''/internal/ingest'') [str ''x-service-token'' \<mapsto> str ''s3cret''] JNull)
             (str ''x-service-token'') = Some (SERVICE_TOKEN (demo_env demo_keys demo_files))"
    by (simp add: demo_config demo_request_def)
  have a: "app (demo_env demo_keys demo_files) (ingest_route 0)
        (demo_request (str ''/internal/ingest'') [str ''x-service-token'' \<mapsto> str ''s3cret''] JNull)
        ([], demo_state (str ''a.txt''))
     = (Reply 500 None, [], demo_state (str ''a.txt''))"
    by (simp add: app_def verify_service_token_def exception_middleware_def
        server_error_middleware_def r h)
  from i a show ?thesis by simp
qed

text \<open>
  Claim C4. For a path under \<open>/internal/\<close> and a non-empty \<open>SERVICE_TOKEN\<close> the gate raises
  \<open>HTTPException(401)\<close> unless the header \<open>x-service-token\<close> equals the token, and lets every
  other request through (\<open>verify_service_token_cases\<close>). But the exception is raised in a
  middleware, outside \<open>ExceptionMiddleware\<close>, so it is answered as a server error
  (\<open>gate_rejection_reply\<close>): a request to \<open>/internal/ingest\<close> with a wrong token gets status
  500, not 401.
\<close>

theorem wrong_token_reply:
  "verify_service_token (demo_env demo_keys demo_files)
      (demo_request (str ''/internal/ingest'') [str ''x-service-token'' \<mapsto> str ''guess'']
         (JObject demo_payload))
      (exception_middleware (ingest_route 0)) ([], initial_state)
     = (Inl (HTTPException 401 (str ''unauthorized'')), [], initial_state)
   \<and> app (demo_env demo_keys demo_files) (ingest_route 0)
        (demo_request (str ''/internal/ingest'') [str ''x-service-token'' \<mapsto> str ''guess'']
           (JObject demo_payload))
        ([], initial_state)
     = (Reply 500 None, [], initial_state)"
proof -
  have p: "prefix (str ''/internal/'') (url_path (demo_request (str ''/internal/ingest'')
             [str ''x-service-token'' \<mapsto> str ''guess''] (JObject demo_payload)))"
    by (simp add: demo_request_def str_def)
  have t: "SERVICE_TOKEN (demo_env demo_keys demo_files) \<noteq> []"
    by (simp add: demo_config) (simp add: str_def)
  have h: "headers (demo_request (str ''/internal/ingest'')
             [str ''x-service-token'' \<mapsto> str ''guess''] (JObject demo_payload)) (str ''x-service-token'')
           \<noteq> Some (SERVICE_TOKEN (demo_env demo_keys demo_files))"
    by (simp add: demo_config demo_request_def) (simp add: str_def)
  from p t h gate_rejection_reply [OF p t h] show ?thesis
    by (simp add: verify_service_token_def)
qed

subsection \<open>Reading a text file\<close>

lemma utf8_decode_ignore_total: "\<exists>t. utf8_decode_from Ignore i bs = Inr t"
proof (induction "length bs" arbitrary: i bs rule: less_induct)
  case less
  show ?case
  proof (cases bs)
    case Nil
    then show ?thesis by simp
  next
    case (Cons b rest)
    have ih: "\<exists>t. utf8_decode_from Ignore j (drop k rest) = Inr t" for j k
      by (rule less) (simp add: Cons less_Suc_eq_le)
    show ?thesis
    proof (cases "utf8_next b rest")
      case (Decoded c n)
      from ih [of "i + n" "n - 1"] Decoded show ?thesis unfolding Cons by auto
    next
      case (Undecodable n r)
      from ih [of "i + n" "n - 1"] Undecodable show ?thesis unfolding Cons by auto
    qed
  qed
qed

lemma utf8_decode_strict_ignore:
  "utf8_decode_from Strict i bs = Inr t \<Longrightarrow> utf8_decode_from Ignore i bs = Inr t"
proof (induction "length bs" arbitrary: i bs t rule: less_induct)
  case less
  show ?case
  proof (cases bs)
    case Nil
    with less.prems show ?thesis by simp
  next
    case (Cons b rest)
    have ih: "utf8_decode_from Strict j (drop k rest) = Inr u \<Longrightarrow>
              utf8_decode_from Ignore j (drop k rest) = Inr u" for j k u
      by (rule less.hyps) (simp_all add: Cons less_Suc_eq_le)
    show ?thesis
    proof (cases "utf8_next b rest")
      case (Decoded c n)
      with less.prems obtain u where u: "utf8_decode_from Strict (i + n) (drop (n - 1) rest) = Inr u"
        and t: "t = c # u"
        unfolding Cons by (auto split: sum.splits)
      from ih [OF u] Decoded t show ?thesis unfolding Cons by simp
    next
      case (Undecodable n r)
      with less.prems show ?thesis unfolding Cons by simp
    qed
  qed
qed

lemma utf8_decode_ignore_replace:
  "utf8_decode_from Ignore i bs = Inr t \<Longrightarrow>
   \<exists>t'. utf8_decode_from Replace i bs = Inr t' \<and> subseq t t'"
proof (induction "length bs" arbitrary: i bs t rule: less_induct)
  case less
  show ?case
  proof (cases bs)
    case Nil
    with less.prems show ?thesis by simp
  next
    case (Cons b rest)
    have ih: "utf8_decode_from Ignore j (drop k rest) = Inr u \<Longrightarrow>
              \<exists>t'. utf8_decode_from Replace j (drop k rest) = Inr t' \<and> subseq u t'" for j k u
      by (rule less.hyps) (simp_all add: Cons less_Suc_eq_le)
    show ?thesis
    proof (cases "utf8_next b rest")
      case (Decoded c n)
      with less.prems obtain u where u: "utf8_decode_from Ignore (i + n) (drop (n - 1) rest) = Inr u"
        and t: "t = c # u"
        unfolding Cons by (auto split: sum.splits)
      from ih [OF u] obtain u' where "utf8_decode_from Replace (i + n) (drop (n - 1) rest) = Inr u'"
        and "subseq u u'" by blast
      with Decoded t show ?thesis unfolding Cons by simp
    next
      case (Undecodable n r)
      with less.prems have u: "utf8_decode_from Ignore (i + n) (drop (n - 1) rest) = Inr t"
        unfolding Cons by simp
      from ih [OF u] obtain u' where "utf8_decode_from Replace (i + n) (drop (n - 1) rest) = Inr u'"
        and "subseq t u'" by blast
      with Undecodable show ?thesis unfolding Cons by (simp add: list_emb_Cons)
    qed
  qed
qed

lemma extract_text_plain_file:
  "path_exists e p = Inr True \<Longrightarrow> lower (path_suffix e p) \<noteq> str ''.pdf'' \<Longrightarrow>
   open_read e p = Inr bs \<Longrightarrow> extract_text e p = read_text Ignore bs"
  by (simp add: extract_text_def)

text \<open>
  Claim C3, as the code has it. For an existing path whose suffix is not \<open>.pdf\<close> and whose
  file can be opened, \<open>extract_text\<close> never raises: it returns the bytes of the file decoded
  as UTF-8 with \<open>errors="ignore"\<close>, line ends translated. A file that is valid UTF-8 comes
  back in full. Undecodable bytes are dropped, not replaced: the decoded text is what
  decoding with replacement gives with the replacement characters left out, so nothing in
  the result marks their positions.
\<close>

theorem extract_text_drops_undecodable:
  "path_exists e p = Inr True \<and> lower (path_suffix e p) \<noteq> str ''.pdf'' \<and> open_read e p = Inr bs \<longrightarrow>
     (\<exists>t. extract_text e p = Inr t \<and> read_text Ignore bs = Inr t)
     \<and> (\<forall>t. read_text Strict bs = Inr t \<longrightarrow> extract_text e p = Inr t)
     \<and> (\<exists>t t'. utf8_decode Ignore bs = Inr t \<and> utf8_decode Replace bs = Inr t' \<and> subseq t t'
           \<and> extract_text e p = Inr (universal_newlines t)
           \<and> read_replacing bs = Inr (universal_newlines t'))"
proof (intro impI, elim conjE)
  assume "path_exists e p = Inr True" and "lower (path_suffix e p) \<noteq> str ''.pdf''"
    and "open_read e p = Inr bs"
  then have x: "extract_text e p = read_text Ignore bs"
    by (rule extract_text_plain_file)
  from utf8_decode_ignore_total [of 0 "map unat bs"]
  obtain t where t: "utf8_decode Ignore bs = Inr t"
    by (auto simp: utf8_decode_def)
  from utf8_decode_ignore_replace [of 0 "map unat bs" t] t
  obtain t' where t': "utf8_decode Replace bs = Inr t'" and s: "subseq t t'"
    by (auto simp: utf8_decode_def)
  have a: "\<exists>t. extract_text e p = Inr t \<and> read_text Ignore bs = Inr t"
    using x t by (simp add: read_text_def)
  have b: "\<forall>u. read_text Strict bs = Inr u \<longrightarrow> extract_text e p = Inr u"
  proof (intro allI impI)
    fix u assume "read_text Strict bs = Inr u"
    then obtain v where v: "utf8_decode_from Strict 0 (map unat bs) = Inr v"
      and u: "u = universal_newlines v"
      by (auto simp: read_text_def utf8_decode_def split: sum.splits)
    from utf8_decode_strict_ignore [OF v] u show "extract_text e p = Inr u"
      unfolding x by (simp add: read_text_def utf8_decode_def)
  qed
  have c: "\<exists>t t'. utf8_decode Ignore bs = Inr t \<and> utf8_decode Replace bs = Inr t' \<and> subseq t t'
           \<and> extract_text e p = Inr (universal_newlines t)
           \<and> read_replacing bs = Inr (universal_newlines t')"
    using t t' s x by (auto simp: read_text_def read_replacing_def)
  from a b c
  show "(\<exists>t. extract_text e p = Inr t \<and> read_text Ignore bs = Inr t)
     \<and> (\<forall>t. read_text Strict bs = Inr t \<longrightarrow> extract_text e p = Inr t)
     \<and> (\<exists>t t'. utf8_decode Ignore bs = Inr t \<and> utf8_decode Replace bs = Inr t' \<and> subseq t t'
           \<and> extract_text e p = Inr (universal_newlines t)
           \<and> read_replacing bs = Inr (universal_newlines t'))"
    by blast
qed

theorem extract_text_drops_undecodable_witness:
  "path_exists (demo_env demo_keys demo_files) (str ''b.txt'') = Inr True
   \<and> lower (path_suffix (demo_env demo_keys demo_files) (str ''b.txt'')) \<noteq> str ''.pdf''
   \<and> open_read (demo_env demo_keys demo_files) (str ''b.txt'') = Inr [0x68, 0x69]
   \<and> read_text Strict [0x68, 0x69] = Inr (str ''hi'')
   \<and> extract_text (demo_env demo_keys demo_files) (str ''b.txt'') = Inr (str ''hi'')
   \<and> (\<exists>t. extract_text (demo_env demo_keys demo_files) (str ''b.txt'') = Inr t
          \<and> read_text Ignore [0x68, 0x69] = Inr t)"
proof -
  have h1: "path_exists (demo_env demo_keys demo_files) (str ''b.txt'') = Inr True"
    by (rule demo_path_exists)
  have h2: "lower (path_suffix (demo_env demo_keys demo_files) (str ''b.txt'')) \<noteq> str ''.pdf''"
    by (simp add: demo_env_def lower_def str_def)
  have h3: "open_read (demo_env demo_keys demo_files) (str ''b.txt'') = Inr [0x68, 0x69]"
    by (simp add: demo_env_def demo_files_def str_def)
  have h4: "read_text Strict [0x68, 0x69] = Inr (str ''hi'')"
    by (simp add: read_text_def utf8_decode_def utf8_next_def str_def)
  from extract_text_drops_undecodable [of "demo_env demo_keys demo_files" "str ''b.txt''" "[0x68, 0x69]"]
    h1 h2 h3 h4
  show ?thesis by blast
qed

text \<open>
  The claim as the specification words it, undecodable bytes replaced and their positions
  represented in the result, fails at the file \<open>a.txt\<close> with the bytes \<open>61 FF 62\<close>: reading
  with replacement gives \<open>a\<close>, U+FFFD, \<open>b\<close>; \<open>extract_text\<close> returns \<open>ab\<close>.
\<close>

theorem extract_text_counterexample:
  "path_exists (demo_env demo_keys demo_files) (str ''a.txt'') = Inr True
   \<and> lower (path_suffix (demo_env demo_keys demo_files) (str ''a.txt'')) \<noteq> str ''.pdf''
   \<and> open_read (demo_env demo_keys demo_files) (str ''a.txt'') = Inr [0x61, 0xFF, 0x62]
   \<and> read_replacing [0x61, 0xFF, 0x62] = Inr [0x61, 0xFFFD, 0x62]
   \<and> extract_text (demo_env demo_keys demo_files) (str ''a.txt'') = Inr [0x61, 0x62]
   \<and> extract_text (demo_env demo_keys demo_files) (str ''a.txt'') \<noteq> read_replacing [0x61, 0xFF, 0x62]"
proof -
  have h1: "path_exists (demo_env demo_keys demo_files) (str ''a.txt'') = Inr True"
    by (rule demo_path_exists)
  have h2: "lower (path_suffix (demo_env demo_keys demo_files) (str ''a.txt'')) \<noteq> str ''.pdf''"
    by (simp add: demo_env_def lower_def str_def)
  have h3: "open_read (demo_env demo_keys demo_files) (str ''a.txt'') = Inr [0x61, 0xFF, 0x62]"
    by (simp add: demo_env_def demo_files_def str_def)
  have h4: "read_replacing [0x61, 0xFF, 0x62] = Inr [0x61, 0xFFFD, 0x62]"
    by (simp add: read_replacing_def read_text_def utf8_decode_def utf8_next_def)
  have h5: "extract_text (demo_env demo_keys demo_files) (str ''a.txt'') = Inr [0x61, 0x62]"
    by (simp add: demo_extract_text) (simp add: str_def)
  from h1 h2 h3 h4 h5 show ?thesis by simp
qed

subsection \<open>The fallback of the query stream\<close>












end
